theory Spec2Isabelle
  imports Main "HOL-Library.Word"
begin

unbundle bit_operations_syntax

section \<open>Constants of the unit editor\<close>

text \<open>
  A shallow embedding of \<^verbatim>\<open>DW5XLE_UNITTOOL.pyw\<close>. Bytes are 8-bit words, Python
  integers are \<^typ>\<open>int\<close>, a \<^verbatim>\<open>bytes\<close> value is a list of bytes.
\<close>

type_synonym byte = "8 word"

definition SLOT_SIZE :: nat where
  "SLOT_SIZE = 22"

definition NUM_SLOTS_TOTAL :: nat where
  "NUM_SLOTS_TOTAL = 895"

definition AOB_PATTERN :: "byte list" where
  "AOB_PATTERN =
     [0x14, 0x14, 0x14, 0x80, 0x14, 0x14, 0x14, 0x80,
      0x14, 0x14, 0x14, 0x80, 0x14, 0x14, 0x14, 0x80,
      0x00, 0x00, 0x00, 0x00, 0x00, 0x00, 0x00, 0x00,
      0x00, 0x00, 0x00, 0x00, 0x00, 0x00, 0x00, 0x00]"

section \<open>Locating the unit block\<close>

text \<open>
  \<^verbatim>\<open>data.find(pattern)\<close> of Python's \<^verbatim>\<open>bytes\<close>: the lowest index at which
  \<^verbatim>\<open>pattern\<close> starts in \<^verbatim>\<open>data\<close>, and \<^verbatim>\<open>-1\<close> when it starts nowhere.
\<close>

fun bytes_find_from :: "nat \<Rightarrow> byte list \<Rightarrow> byte list \<Rightarrow> int" where
  "bytes_find_from i [] pat = (if pat = [] then int i else - 1)"
| "bytes_find_from i (x # xs) pat =
     (if take (length pat) (x # xs) = pat then int i
      else bytes_find_from (Suc i) xs pat)"

definition bytes_find :: "byte list \<Rightarrow> byte list \<Rightarrow> int" where
  "bytes_find data pat = bytes_find_from 0 data pat"

definition chunk_size :: nat where
  "chunk_size = 8000"

definition plen :: nat where
  "plen = length AOB_PATTERN"

text \<open>
  The first pass of \<^verbatim>\<open>_load_unit_data_in_memory\<close>. The open file is the list
  \<open>rest\<close> of the bytes not read yet, so \<^verbatim>\<open>f.read(chunk_size)\<close> is
  \<open>take chunk_size rest\<close> and leaves \<open>drop chunk_size rest\<close>. The result is
  \<^verbatim>\<open>found_offset\<close>, \<open>None\<close> as in the source.
\<close>

function scan_loop :: "byte list \<Rightarrow> byte list \<Rightarrow> int \<Rightarrow> int option" where
  "scan_loop rest prev_tail file_offset =
     (if take chunk_size rest = [] then None
      else
        let chunk = take chunk_size rest;
            data = prev_tail @ chunk;
            idx = bytes_find data AOB_PATTERN
        in
          if idx \<noteq> - 1 then
            (let absolute = (file_offset - int (length prev_tail)) + idx
             in Some (absolute + 0x3D0))
          else
            scan_loop (drop chunk_size rest)
              (if length data \<ge> plen - 1
               then drop (length data - (plen - 1)) data
               else data)
              (file_offset + int (length chunk)))"
  by pat_completeness auto
termination
  by (relation "measure (\<lambda>(rest, prev_tail, file_offset). length rest)")
     (auto simp: chunk_size_def)

declare scan_loop.simps [simp del]

definition locate :: "byte list \<Rightarrow> int option" where
  "locate file = scan_loop file [] 0"


section \<open>Status messages\<close>

text \<open>
  The text of a status label is one constructor per message of the source, with the
  values its f-string prints as arguments; the colour is the \<^verbatim>\<open>fg\<close> of the label.
  An exception caught by a handler is a value of \<open>exn\<close>.
\<close>

datatype color = Green | Red | Orange

datatype exn =
    SlotRangeError int
      \<comment> \<open>\<^verbatim>\<open>ValueError(f"Slot {slot_index} out of range.")\<close>\<close>
  | NameRangeError
      \<comment> \<open>\<^verbatim>\<open>ValueError("Name ID must be between 0 and 65535.")\<close>\<close>
  | ModSizeError nat nat
      \<comment> \<open>\<^verbatim>\<open>ValueError(f"Mod size {len(data)} bytes does not match expected ...")\<close>\<close>
  | BackupSizeError nat nat
      \<comment> \<open>\<^verbatim>\<open>ValueError(f"Backup size {len(data)} bytes does not match expected ...")\<close>\<close>
  | FileNotFoundError string
      \<comment> \<open>raised by \<^verbatim>\<open>open\<close> for a path that is no file or lies in no directory\<close>
  | NegativeSeekError int
      \<comment> \<open>raised by \<^verbatim>\<open>seek\<close> of a file to a negative position\<close>

datatype message =
    NoMessage
  | NoFileSelected                \<comment> \<open>"No file selected."\<close>
  | LoadedISO string              \<comment> \<open>"Loaded ISO: ..."\<close>
  | NoISOSelected                 \<comment> \<open>"No ISO selected."\<close>
  | ISONotFound                   \<comment> \<open>"Selected ISO not found."\<close>
  | CouldNotLocate                \<comment> \<open>"Could not locate unit data block in ISO file."\<close>
  | UnexpectedEOF nat nat         \<comment> \<open>"Unexpected EOF: wanted ... bytes of unit data, got ..."\<close>
  | BlockLoaded                   \<comment> \<open>"Unit block loaded into memory and backup created (if missing)."\<close>
  | NotLoaded                     \<comment> \<open>"Unit data not loaded."\<close>
  | SlotOutOfRange int            \<comment> \<open>"Slot ... out of range (0-894)."\<close>
  | UnexpectedEndOfUnitData int   \<comment> \<open>"Unexpected end of unit data at slot ..."\<close>
  | LoadedSlot int nat            \<comment> \<open>"Loaded slot ... (offset 0x...)."\<close>
  | ValuesWritten int             \<comment> \<open>"Values written for slot ..."\<close>
  | ErrorWithEntries exn          \<comment> \<open>"Error with entries: ..., please use values less than 255."\<close>
  | ModCreated string             \<comment> \<open>"Mod file '...' created successfully."\<close>
  | ErrorCreatingMod string exn   \<comment> \<open>"Error creating mod file '...': ..."\<close>
  | OffsetNotAvailable            \<comment> \<open>"Unit block offset in ISO not available."\<close>
  | ModEnabled string             \<comment> \<open>"Mod '...' enabled successfully."\<close>
  | ErrorEnablingMod exn          \<comment> \<open>"Error enabling mod: ..."\<close>
  | BackupApplied string          \<comment> \<open>"Backup '...' applied successfully."\<close>
  | ErrorDisablingMod exn         \<comment> \<open>"Error disabling mod: ..."\<close>

type_synonym label = "message \<times> color"

section \<open>Buffers and files\<close>

text \<open>
  A \<^verbatim>\<open>BytesIO\<close> is its contents and its position. Writing at a position replaces
  the bytes there and extends the contents when it runs past the end; a position
  beyond the end is first reached by zero bytes. A file opened with \<^verbatim>\<open>"r+b"\<close>
  is written the same way.
\<close>

record bytesio =
  buf :: "byte list"
  pos :: nat

definition overwrite_at :: "byte list \<Rightarrow> nat \<Rightarrow> byte list \<Rightarrow> byte list" where
  "overwrite_at old p new =
     take p old @ replicate (p - length old) 0 @ new @ drop (p + length new) old"

definition bio_seek :: "bytesio \<Rightarrow> nat \<Rightarrow> bytesio" where
  "bio_seek b p = b\<lparr>pos := p\<rparr>"

definition bio_read :: "bytesio \<Rightarrow> nat \<Rightarrow> byte list \<times> bytesio" where
  "bio_read b n =
     (let data = take n (drop (pos b) (buf b))
      in (data, b\<lparr>pos := pos b + length data\<rparr>))"

definition bio_write :: "bytesio \<Rightarrow> byte list \<Rightarrow> bytesio" where
  "bio_write b data =
     b\<lparr>buf := overwrite_at (buf b) (pos b) data, pos := pos b + length data\<rparr>"

text \<open>
  The file system maps a path to the contents of the file there. A path that maps to
  \<open>None\<close> is no file: \<^verbatim>\<open>os.path.isfile\<close> and \<^verbatim>\<open>os.path.exists\<close> are false and
  \<^verbatim>\<open>open\<close> for reading or updating raises. \<^verbatim>\<open>open(path, "wb")\<close> creates the
  file or raises: for the mod file, whose name the user types, the exception it raises
  (\<open>None\<close> when it opens) is what \<open>open_raises\<close> gives for the path, an answer of
  the environment like the path that a file dialog returns. The backup is written into
  the directory that \<^verbatim>\<open>__init__\<close> creates, by a write that the source wraps in no
  handler; that write is taken to succeed.
\<close>

type_synonym filesystem = "string \<rightharpoonup> byte list"

type_synonym open_raises = "string \<Rightarrow> exn option"

definition BACKUP_DIR :: string where
  "BACKUP_DIR = ''Backups_For_Mod_Disabling''"

definition DW5XLE_UNIT_MOD_EXT :: string where
  "DW5XLE_UNIT_MOD_EXT = ''.dw5xlemod''"

text \<open>
  \<^verbatim>\<open>os.path.basename\<close>, \<^verbatim>\<open>os.path.splitext(...)[0]\<close> and \<^verbatim>\<open>os.path.join\<close> as
  \<^verbatim>\<open>posixpath\<close> has them: the base name is what follows the last \<^verbatim>\<open>/\<close>; the
  extension starts at the last dot unless only dots come before it; joining puts a
  \<^verbatim>\<open>/\<close> before a relative second part.
\<close>

definition basename :: "string \<Rightarrow> string" where
  "basename p = rev (takeWhile (\<lambda>c. c \<noteq> CHR ''/'') (rev p))"

definition splitext_root :: "string \<Rightarrow> string" where
  "splitext_root b =
     (let ext = takeWhile (\<lambda>c. c \<noteq> CHR ''.'') (rev b)
      in if length ext = length b then b
         else
           let root = take (length b - length ext - 1) b
           in if list_all (\<lambda>c. c = CHR ''.'') root then b else root)"

definition backup_path_of :: "string \<Rightarrow> string" where
  "backup_path_of iso_file =
     (let iso_base = splitext_root (basename iso_file);
          backup_name = iso_base @ ''_Original.unitdata''
      in BACKUP_DIR @ ''/'' @ backup_name)"

section \<open>The slot selector\<close>

text \<open>
  \<^verbatim>\<open>int(slot_str, 16)\<close> on a string of ASCII characters, \<open>None\<close> where Python
  raises \<^verbatim>\<open>ValueError\<close>: white space around the number, an optional sign, an optional
  \<^verbatim>\<open>0x\<close> or \<^verbatim>\<open>0X\<close>, then hexadecimal digits, with single underscores allowed
  between digits and after the prefix.
\<close>

definition is_space :: "char \<Rightarrow> bool" where
  "is_space c = (c \<in> set [CHR 0x09, CHR 0x0A, CHR 0x0B, CHR 0x0C, CHR 0x0D, CHR 0x20])"

definition hex_digit_value :: "char \<Rightarrow> int option" where
  "hex_digit_value c =
     (let n = (of_char c :: nat)
      in if 48 \<le> n \<and> n \<le> 57 then Some (int n - 48)
         else if 97 \<le> n \<and> n \<le> 102 then Some (int n - 87)
         else if 65 \<le> n \<and> n \<le> 70 then Some (int n - 55)
         else None)"

fun hex_digits :: "int \<Rightarrow> bool \<Rightarrow> string \<Rightarrow> (int \<times> string) option" where
  "hex_digits acc prev_underscore [] =
     (if prev_underscore then None else Some (acc, []))"
| "hex_digits acc prev_underscore (c # cs) =
     (if c = CHR ''_'' then
        (if prev_underscore then None else hex_digits acc True cs)
      else
        (case hex_digit_value c of
           Some d \<Rightarrow> hex_digits (16 * acc + d) False cs
         | None \<Rightarrow> if prev_underscore then None else Some (acc, c # cs)))"

definition strip_sign :: "string \<Rightarrow> int \<times> string" where
  "strip_sign s =
     (case s of
        c # cs \<Rightarrow>
          if c = CHR ''+'' then (1, cs)
          else if c = CHR ''-'' then (- 1, cs)
          else (1, s)
      | [] \<Rightarrow> (1, s))"

definition strip_hex_prefix :: "string \<Rightarrow> string" where
  "strip_hex_prefix s =
     (case s of
        c0 # c1 # cs \<Rightarrow>
          if c0 = CHR ''0'' \<and> (c1 = CHR ''x'' \<or> c1 = CHR ''X'') then
            (case cs of
               c2 # cs' \<Rightarrow> if c2 = CHR ''_'' then cs' else cs
             | [] \<Rightarrow> cs)
          else s
      | _ \<Rightarrow> s)"

definition int_base16 :: "string \<Rightarrow> int option" where
  "int_base16 slot_str =
     (let (sign, s1) = strip_sign (dropWhile is_space slot_str);
          s2 = strip_hex_prefix s1
      in case s2 of
           [] \<Rightarrow> None
         | c # cs \<Rightarrow>
             if hex_digit_value c = None then None
             else
               (case hex_digits 0 False s2 of
                  None \<Rightarrow> None
                | Some (v, rest) \<Rightarrow>
                    if dropWhile is_space rest = [] then Some (sign * v) else None))"

section \<open>The editor\<close>

text \<open>
  The state of \<^verbatim>\<open>MainEditor\<close>: the integer variables of the form, the path of
  the image, the buffer, the offset of the unit block, the mod name, the status label
  and the selected slot. Each integer variable holds an integer, so
  \<^verbatim>\<open>get\<close> returns it; a variable whose entry holds no integer, for which
  \<^verbatim>\<open>get\<close> raises into the handler of \<^verbatim>\<open>submit_unit\<close> before anything is
  written, is outside this model.
\<close>

record unit_fields =
  name :: int
  unknown1 :: int
  voice :: int
  model :: int
  color :: int
  moveset :: int
  horse :: int
  life :: int
  attack :: int
  defense :: int
  bow :: int
  mounted :: int
  speed :: int
  strafespeed :: int
  jump :: int
  ailevel :: int
  aitype :: int
  unknown2 :: int
  weapon :: int
  weaponlevel :: int
  orb :: int

record editor = unit_fields +
  dw_iso :: string
  unit_mem :: "bytesio option"
  iso_unit_offset :: "int option"
  modname :: string
  status_label :: label
  selected_slot_str :: string

definition get_selected_slot_index :: "'a editor_scheme \<Rightarrow> int" where
  "get_selected_slot_index st =
     (case int_base16 (selected_slot_str st) of
        Some v \<Rightarrow> v
      | None \<Rightarrow> 0)"

text \<open>\<^verbatim>\<open>int.from_bytes(bs, "little")\<close> and \<^verbatim>\<open>v.to_bytes(n, "little")\<close>.\<close>

definition from_bytes_little :: "byte list \<Rightarrow> int" where
  "from_bytes_little bs = foldr (\<lambda>b acc. uint b + 256 * acc) bs 0"

definition to_bytes_little :: "nat \<Rightarrow> int \<Rightarrow> byte list" where
  "to_bytes_little n v = map (\<lambda>k. word_of_int (v div 256 ^ k)) [0..<n]"

definition unit_display :: "editor \<Rightarrow> int \<Rightarrow> editor" where
  "unit_display st slot_index =
     (case unit_mem st of
        None \<Rightarrow> st\<lparr>status_label := (NotLoaded, Red)\<rparr>
      | Some mem \<Rightarrow>
          if \<not> (0 \<le> slot_index \<and> slot_index < int NUM_SLOTS_TOTAL) then
            st\<lparr>status_label := (SlotOutOfRange slot_index, Red)\<rparr>
          else
            let offset = nat slot_index * SLOT_SIZE;
                (data, mem') = bio_read (bio_seek mem offset) SLOT_SIZE;
                st1 = st\<lparr>unit_mem := Some mem'\<rparr>
            in
              if length data \<noteq> SLOT_SIZE then
                st1\<lparr>status_label := (UnexpectedEndOfUnitData slot_index, Red)\<rparr>
              else
                st1\<lparr>name := from_bytes_little (take 2 data),
                    unknown1 := uint (data ! 2),
                    voice := uint (data ! 3),
                    model := uint (data ! 4),
                    color := uint (data ! 5),
                    moveset := uint (data ! 6),
                    horse := uint (data ! 7),
                    life := uint (data ! 8),
                    attack := uint (data ! 9),
                    defense := uint (data ! 10),
                    bow := uint (data ! 11),
                    mounted := uint (data ! 12),
                    speed := uint (data ! 13),
                    strafespeed := uint (data ! 14),
                    jump := uint (data ! 15),
                    ailevel := uint (data ! 16),
                    aitype := uint (data ! 17),
                    unknown2 := uint (data ! 18),
                    weapon := uint (data ! 19),
                    weaponlevel := uint (data ! 20),
                    orb := uint (data ! 21),
                    status_label := (LoadedSlot slot_index offset, Green)\<rparr>)"

definition slot_selected :: "editor \<Rightarrow> editor" where
  "slot_selected st = unit_display st (get_selected_slot_index st)"

text \<open>
  The 22 bytes that \<^verbatim>\<open>submit_unit\<close> builds in \<^verbatim>\<open>record\<close>: the name in two bytes,
  then each other variable masked with \<^verbatim>\<open>0xFF\<close>.
\<close>

definition encode_record :: "'a unit_fields_scheme \<Rightarrow> byte list" where
  "encode_record st =
     to_bytes_little 2 (name st) @
     [word_of_int (unknown1 st AND 0xFF),
      word_of_int (voice st AND 0xFF),
      word_of_int (model st AND 0xFF),
      word_of_int (color st AND 0xFF),
      word_of_int (moveset st AND 0xFF),
      word_of_int (horse st AND 0xFF),
      word_of_int (life st AND 0xFF),
      word_of_int (attack st AND 0xFF),
      word_of_int (defense st AND 0xFF),
      word_of_int (bow st AND 0xFF),
      word_of_int (mounted st AND 0xFF),
      word_of_int (speed st AND 0xFF),
      word_of_int (strafespeed st AND 0xFF),
      word_of_int (jump st AND 0xFF),
      word_of_int (ailevel st AND 0xFF),
      word_of_int (aitype st AND 0xFF),
      word_of_int (unknown2 st AND 0xFF),
      word_of_int (weapon st AND 0xFF),
      word_of_int (weaponlevel st AND 0xFF),
      word_of_int (orb st AND 0xFF)]"

definition submit_unit :: "editor \<Rightarrow> editor" where
  "submit_unit st =
     (case unit_mem st of
        None \<Rightarrow> st\<lparr>status_label := (NotLoaded, Red)\<rparr>
      | Some mem \<Rightarrow>
          let slot_index = get_selected_slot_index st in
          if \<not> (0 \<le> slot_index \<and> slot_index < int NUM_SLOTS_TOTAL) then
            st\<lparr>status_label := (ErrorWithEntries (SlotRangeError slot_index), Red)\<rparr>
          else
            let name_val = name st in
            if \<not> (0 \<le> name_val \<and> name_val \<le> 0xFFFF) then
              st\<lparr>status_label := (ErrorWithEntries NameRangeError, Red)\<rparr>
            else
              let record = encode_record st;
                  offset = nat slot_index * SLOT_SIZE;
                  mem' = bio_write (bio_seek mem offset) record
              in st\<lparr>unit_mem := Some mem',
                    status_label := (ValuesWritten slot_index, Green)\<rparr>)"

section \<open>Loading, backup and mod files\<close>

text \<open>
  \<^verbatim>\<open>_load_unit_data_in_memory\<close> on the editor and the file system. The offset that
  \<open>locate\<close> finds is never negative, so the seek of the second pass is to
  \<open>nat found_offset\<close>.
\<close>

definition load_unit_data_in_memory :: "editor \<times> filesystem \<Rightarrow> editor \<times> filesystem" where
  "load_unit_data_in_memory = (\<lambda>(st, fs).
     if dw_iso st = [] then (st\<lparr>status_label := (NoISOSelected, Red)\<rparr>, fs)
     else
       case fs (dw_iso st) of
         None \<Rightarrow> (st\<lparr>status_label := (ISONotFound, Red)\<rparr>, fs)
       | Some contents \<Rightarrow>
           (case locate contents of
              None \<Rightarrow>
                (st\<lparr>unit_mem := None, iso_unit_offset := None,
                    status_label := (CouldNotLocate, Red)\<rparr>, fs)
            | Some found_offset \<Rightarrow>
                let st1 = st\<lparr>iso_unit_offset := Some found_offset\<rparr>;
                    total_bytes = SLOT_SIZE * NUM_SLOTS_TOTAL;
                    data = take total_bytes (drop (nat found_offset) contents)
                in
                  if length data \<noteq> total_bytes then
                    (st1\<lparr>unit_mem := None, iso_unit_offset := None,
                         status_label := (UnexpectedEOF total_bytes (length data), Red)\<rparr>, fs)
                  else
                    let st2 = st1\<lparr>unit_mem := Some \<lparr>buf = data, pos = 0\<rparr>\<rparr>;
                        backup_path = backup_path_of (dw_iso st);
                        fs' = (if fs backup_path = None then fs(backup_path \<mapsto> data) else fs)
                    in (st2\<lparr>status_label := (BlockLoaded, Green)\<rparr>, fs')))"

text \<open>\<^verbatim>\<open>ask_file\<close>, with the path that the file dialog returns as an argument.\<close>

definition ask_file :: "string \<Rightarrow> editor \<times> filesystem \<Rightarrow> editor \<times> filesystem" where
  "ask_file path = (\<lambda>(st, fs).
     if path = [] then (st\<lparr>status_label := (NoFileSelected, Orange)\<rparr>, fs)
     else
       let st1 = st\<lparr>dw_iso := path, status_label := (LoadedISO (basename path), Green)\<rparr>;
           (st2, fs2) = load_unit_data_in_memory (st1, fs)
       in if unit_mem st2 \<noteq> None then (unit_display st2 0, fs2) else (st2, fs2))"

text \<open>
  \<^verbatim>\<open>create_unit_mod\<close>: the name of the mod file, then the write inside the
  \<^verbatim>\<open>try\<close>, whose handler reports the exception that \<^verbatim>\<open>open\<close> raises.
\<close>

definition mod_file_name :: "string \<Rightarrow> string" where
  "mod_file_name modname_text =
     (let first_part = takeWhile (\<lambda>c. c \<noteq> CHR ''.'') modname_text;
          base_name = (if first_part = [] then ''DW5XLEUnit'' else first_part)
      in base_name @ DW5XLE_UNIT_MOD_EXT)"

definition create_unit_mod ::
  "open_raises \<Rightarrow> editor \<times> filesystem \<Rightarrow> editor \<times> filesystem" where
  "create_unit_mod raises = (\<lambda>(st, fs).
     case unit_mem st of
       None \<Rightarrow> (st\<lparr>status_label := (NotLoaded, Red)\<rparr>, fs)
     | Some mem \<Rightarrow>
         let usermodname = mod_file_name (modname st);
             data = buf mem
         in case raises usermodname of
              Some e \<Rightarrow>
                (st\<lparr>status_label := (ErrorCreatingMod usermodname e, Red)\<rparr>, fs)
            | None \<Rightarrow>
                (st\<lparr>status_label := (ModCreated usermodname, Green)\<rparr>,
                 fs(usermodname \<mapsto> data)))"

section \<open>The mod manager\<close>

record mod_manager =
  iso_path :: string
  mm_iso_unit_offset :: int
  block_size :: nat
  mod_status :: label

text \<open>
  \<^verbatim>\<open>open_mod_manager\<close> returns the editor and the manager it creates, when it
  creates one.
\<close>

definition open_mod_manager :: "editor \<Rightarrow> editor \<times> mod_manager option" where
  "open_mod_manager st =
     (case iso_unit_offset st of
        None \<Rightarrow> (st\<lparr>status_label := (OffsetNotAvailable, Red)\<rparr>, None)
      | Some off \<Rightarrow>
          (st, Some \<lparr>iso_path = dw_iso st, mm_iso_unit_offset = off,
                     block_size = SLOT_SIZE * NUM_SLOTS_TOTAL,
                     mod_status = (NoMessage, Green)\<rparr>))"

text \<open>
  \<^verbatim>\<open>enable_mod\<close> and \<^verbatim>\<open>disable_mod\<close>, with the path that the file dialog returns
  as an argument. Every exception of the body ends in the handler, which sets the
  status and leaves the file system as it is.
\<close>

definition enable_mod :: "string \<Rightarrow> mod_manager \<times> filesystem \<Rightarrow> mod_manager \<times> filesystem" where
  "enable_mod file_path = (\<lambda>(mm, fs).
     if file_path = [] then (mm, fs)
     else
       case fs file_path of
         None \<Rightarrow>
           (mm\<lparr>mod_status := (ErrorEnablingMod (FileNotFoundError file_path), Red)\<rparr>, fs)
       | Some data \<Rightarrow>
           if length data \<noteq> block_size mm then
             (mm\<lparr>mod_status :=
                  (ErrorEnablingMod (ModSizeError (length data) (block_size mm)), Red)\<rparr>, fs)
           else
             (case fs (iso_path mm) of
                None \<Rightarrow>
                  (mm\<lparr>mod_status :=
                       (ErrorEnablingMod (FileNotFoundError (iso_path mm)), Red)\<rparr>, fs)
              | Some contents \<Rightarrow>
                  if mm_iso_unit_offset mm < 0 then
                    (mm\<lparr>mod_status :=
                         (ErrorEnablingMod (NegativeSeekError (mm_iso_unit_offset mm)), Red)\<rparr>,
                     fs)
                  else
                    (mm\<lparr>mod_status := (ModEnabled (basename file_path), Green)\<rparr>,
                     fs(iso_path mm \<mapsto>
                          overwrite_at contents (nat (mm_iso_unit_offset mm)) data))))"

definition disable_mod :: "string \<Rightarrow> mod_manager \<times> filesystem \<Rightarrow> mod_manager \<times> filesystem" where
  "disable_mod file_path = (\<lambda>(mm, fs).
     if file_path = [] then (mm, fs)
     else
       case fs file_path of
         None \<Rightarrow>
           (mm\<lparr>mod_status := (ErrorDisablingMod (FileNotFoundError file_path), Red)\<rparr>, fs)
       | Some data \<Rightarrow>
           if length data \<noteq> block_size mm then
             (mm\<lparr>mod_status :=
                  (ErrorDisablingMod (BackupSizeError (length data) (block_size mm)), Red)\<rparr>, fs)
           else
             (case fs (iso_path mm) of
                None \<Rightarrow>
                  (mm\<lparr>mod_status :=
                       (ErrorDisablingMod (FileNotFoundError (iso_path mm)), Red)\<rparr>, fs)
              | Some contents \<Rightarrow>
                  if mm_iso_unit_offset mm < 0 then
                    (mm\<lparr>mod_status :=
                         (ErrorDisablingMod (NegativeSeekError (mm_iso_unit_offset mm)), Red)\<rparr>,
                     fs)
                  else
                    (mm\<lparr>mod_status := (BackupApplied (basename file_path), Green)\<rparr>,
                     fs(iso_path mm \<mapsto>
                          overwrite_at contents (nat (mm_iso_unit_offset mm)) data))))"

section \<open>Predicates of the specification\<close>

text \<open>The signature starts at position \<open>P\<close> of the contents of a file.\<close>

definition occurs_at :: "byte list \<Rightarrow> nat \<Rightarrow> bool" where
  "occurs_at contents P = (take plen (drop P contents) = AOB_PATTERN)"

text \<open>A label reports a failure: every error branch of the source sets it in red.\<close>

definition is_error :: "label \<Rightarrow> bool" where
  "is_error lbl = (snd lbl = Red)"

text \<open>
  The failures of the five operations, as conditions on what they start from: the
  guards of the error branches of the source. A file dialog that is cancelled starts
  no enable and no disable, so it is no failure of them.
\<close>

definition submit_fails :: "editor \<Rightarrow> bool" where
  "submit_fails st =
     (unit_mem st = None \<or>
      \<not> (0 \<le> get_selected_slot_index st \<and> get_selected_slot_index st < int NUM_SLOTS_TOTAL) \<or>
      \<not> (0 \<le> name st \<and> name st \<le> 0xFFFF))"

definition dump_fails :: "open_raises \<Rightarrow> editor \<Rightarrow> bool" where
  "dump_fails raises st =
     (unit_mem st = None \<or> raises (mod_file_name (modname st)) \<noteq> None)"

definition apply_fails :: "string \<Rightarrow> mod_manager \<Rightarrow> filesystem \<Rightarrow> bool" where
  "apply_fails file_path mm fs =
     (file_path \<noteq> [] \<and>
      (case fs file_path of
         None \<Rightarrow> True
       | Some data \<Rightarrow>
           length data \<noteq> block_size mm \<or> fs (iso_path mm) = None \<or>
           mm_iso_unit_offset mm < 0))"

definition load_fails_before_scan :: "editor \<Rightarrow> filesystem \<Rightarrow> bool" where
  "load_fails_before_scan st fs = (dw_iso st = [] \<or> fs (dw_iso st) = None)"

definition load_fails_after_scan :: "editor \<Rightarrow> filesystem \<Rightarrow> bool" where
  "load_fails_after_scan st fs =
     (dw_iso st \<noteq> [] \<and>
      (case fs (dw_iso st) of
         None \<Rightarrow> False
       | Some contents \<Rightarrow>
           (case locate contents of
              None \<Rightarrow> True
            | Some found_offset \<Rightarrow>
                length contents < nat found_offset + SLOT_SIZE * NUM_SLOTS_TOTAL)))"

text \<open>
  An editor after a load: the image \<^verbatim>\<open>game.iso\<close>, a table of 19690 zero bytes
  found at \<open>0x13D0\<close>, all variables 0 and slot \<^verbatim>\<open>0x0\<close> selected.
\<close>

definition example_editor :: editor where
  "example_editor =
     \<lparr>name = 0, unknown1 = 0, voice = 0, model = 0, color = 0, moveset = 0, horse = 0,
      life = 0, attack = 0, defense = 0, bow = 0, mounted = 0, speed = 0,
      strafespeed = 0, jump = 0, ailevel = 0, aitype = 0, unknown2 = 0, weapon = 0,
      weaponlevel = 0, orb = 0,
      dw_iso = ''game.iso'',
      unit_mem = Some \<lparr>buf = replicate 19690 0, pos = 0\<rparr>,
      iso_unit_offset = Some 0x13D0,
      modname = ''mymod'',
      status_label = (NoMessage, Green),
      selected_slot_str = ''0x0''\<rparr>"

text \<open>
  What a field set becomes when every variable but the Name is reduced to its low 8
  bits, and the field sets whose variables other than the Name are bytes already.
\<close>

definition mask_fields :: "unit_fields \<Rightarrow> unit_fields" where
  "mask_fields f =
     f\<lparr>unknown1 := unknown1 f mod 256, voice := voice f mod 256, model := model f mod 256,
       color := color f mod 256, moveset := moveset f mod 256, horse := horse f mod 256,
       life := life f mod 256, attack := attack f mod 256, defense := defense f mod 256,
       bow := bow f mod 256, mounted := mounted f mod 256, speed := speed f mod 256,
       strafespeed := strafespeed f mod 256, jump := jump f mod 256,
       ailevel := ailevel f mod 256, aitype := aitype f mod 256,
       unknown2 := unknown2 f mod 256, weapon := weapon f mod 256,
       weaponlevel := weaponlevel f mod 256, orb := orb f mod 256\<rparr>"

definition byte_fields :: "unit_fields \<Rightarrow> bool" where
  "byte_fields f =
     list_all (\<lambda>v. 0 \<le> v \<and> v \<le> 255)
       [unknown1 f, voice f, model f, color f, moveset f, horse f, life f, attack f,
        defense f, bow f, mounted f, speed f, strafespeed f, jump f, ailevel f, aitype f,
        unknown2 f, weapon f, weaponlevel f, orb f]"

text \<open>
  An image with the signature at 0, so the table at \<open>0x3D0\<close>: 19690 bytes, all 5,
  that end the file. A file system that holds this image only, and the mod manager
  opened for it.
\<close>

definition example_image :: "byte list" where
  "example_image = AOB_PATTERN @ replicate 944 0 @ replicate 19690 5"

definition example_fs :: filesystem where
  "example_fs = [''game.iso'' \<mapsto> example_image]"

definition example_manager :: mod_manager where
  "example_manager =
     \<lparr>iso_path = ''game.iso'', mm_iso_unit_offset = 976, block_size = 19690,
      mod_status = (NoMessage, Green)\<rparr>"

section \<open>The scan finds the first occurrence of the signature\<close>

lemma plen_32: "plen = 32" by (simp add: plen_def AOB_PATTERN_def)
lemma length_AOB: "length AOB_PATTERN = 32" by (simp add: AOB_PATTERN_def)

lemma occurs_at_bound: "occurs_at fl P \<Longrightarrow> P + 32 \<le> length fl"
proof -
  assume a: "occurs_at fl P"
  have "length (take plen (drop P fl)) = 32"
    using a by (simp add: occurs_at_def length_AOB)
  then show ?thesis by (simp add: plen_32)
qed

lemma find_from_none:
  "pat \<noteq> [] \<Longrightarrow> bytes_find_from i xs pat = - 1 \<longleftrightarrow> (\<forall>Q. take (length pat) (drop Q xs) \<noteq> pat)"
proof (induction xs arbitrary: i)
  case Nil
  then show ?case by auto
next
  case (Cons x xs)
  show ?case
  proof (cases "take (length pat) (x # xs) = pat")
    case True
    then have "\<exists>Q. take (length pat) (drop Q (x # xs)) = pat"
      by (intro exI[of _ 0]) simp
    with True show ?thesis by auto
  next
    case False
    have "(\<forall>Q. take (length pat) (drop Q (x # xs)) \<noteq> pat) \<longleftrightarrow> (\<forall>Q. take (length pat) (drop Q xs) \<noteq> pat)"
    proof
      assume h: "\<forall>Q. take (length pat) (drop Q (x # xs)) \<noteq> pat"
      show "\<forall>Q. take (length pat) (drop Q xs) \<noteq> pat"
      proof
        fix Q show "take (length pat) (drop Q xs) \<noteq> pat" using h[rule_format, of "Suc Q"] by simp
      qed
    next
      assume h: "\<forall>Q. take (length pat) (drop Q xs) \<noteq> pat"
      show "\<forall>Q. take (length pat) (drop Q (x # xs)) \<noteq> pat"
      proof
        fix Q show "take (length pat) (drop Q (x # xs)) \<noteq> pat"
          using h[rule_format, of "Q - 1"] False by (cases Q) auto
      qed
    qed
    with False Cons show ?thesis by simp
  qed
qed

lemma find_from_some:
  "pat \<noteq> [] \<Longrightarrow> bytes_find_from i xs pat \<noteq> - 1 \<Longrightarrow>
   \<exists>P. bytes_find_from i xs pat = int (i + P) \<and> take (length pat) (drop P xs) = pat
        \<and> (\<forall>Q<P. take (length pat) (drop Q xs) \<noteq> pat)"
proof (induction xs arbitrary: i)
  case Nil
  then show ?case by auto
next
  case (Cons x xs)
  show ?case
  proof (cases "take (length pat) (x # xs) = pat")
    case True
    then show ?thesis by (intro exI[of _ 0]) simp
  next
    case False
    with Cons.prems have "bytes_find_from (Suc i) xs pat \<noteq> - 1" by simp
    from Cons.IH[OF Cons.prems(1) this] obtain P where
      P: "bytes_find_from (Suc i) xs pat = int (Suc i + P)" "take (length pat) (drop P xs) = pat"
         "\<forall>Q<P. take (length pat) (drop Q xs) \<noteq> pat" by blast
    have "\<forall>Q<Suc P. take (length pat) (drop Q (x # xs)) \<noteq> pat"
    proof (intro allI impI)
      fix Q assume "Q < Suc P"
      then show "take (length pat) (drop Q (x # xs)) \<noteq> pat"
        using False P(3) by (cases Q) auto
    qed
    with P False show ?thesis by (intro exI[of _ "Suc P"]) simp
  qed
qed


lemma window_occ:
  assumes "s \<le> Q" "Q + n \<le> s + m"
  shows "take n (drop (Q - s) (take m (drop s xs))) = take n (drop Q xs)"
  using assms by (simp add: drop_take min_def)

lemma occurs_at_find_none:
  "bytes_find data AOB_PATTERN = - 1 \<longleftrightarrow> (\<forall>j. take 32 (drop j data) \<noteq> AOB_PATTERN)"
  using find_from_none[of AOB_PATTERN 0 data]
  by (simp add: bytes_find_def length_AOB) (simp add: AOB_PATTERN_def)

lemma occurs_at_find_some:
  assumes "bytes_find data AOB_PATTERN \<noteq> - 1"
  obtains j where "bytes_find data AOB_PATTERN = int j" "take 32 (drop j data) = AOB_PATTERN"
    "\<forall>q<j. take 32 (drop q data) \<noteq> AOB_PATTERN"
proof -
  have ne: "AOB_PATTERN \<noteq> []" by (simp add: AOB_PATTERN_def)
  from find_from_some[OF ne, of 0 data] assms
  show ?thesis using that by (auto simp: bytes_find_def length_AOB)
qed

lemma scan_loop_correct:
  assumes "prev_tail = drop (length pre - 31) pre"
    and "file_offset = int (length pre)"
    and "\<forall>Q. Q + 32 \<le> length pre \<longrightarrow> \<not> occurs_at (pre @ rest) Q"
  shows "((\<forall>Q. \<not> occurs_at (pre @ rest) Q) \<longrightarrow> scan_loop rest prev_tail file_offset = None) \<and>
         (\<forall>P. occurs_at (pre @ rest) P \<and> (\<forall>Q<P. \<not> occurs_at (pre @ rest) Q)
              \<longrightarrow> scan_loop rest prev_tail file_offset = Some (int P + 0x3D0))"
  using assms
proof (induction "length rest" arbitrary: rest pre prev_tail file_offset rule: less_induct)
  case less
  define img where "img = pre @ rest"
  define chunk where "chunk = take chunk_size rest"
  define s where "s = length pre - 31"
  define data where "data = prev_tail @ chunk"
  define m where "m = length data"
  note inv = less.prems(3)[folded img_def]
  have tail: "prev_tail = drop s pre" using less.prems(1) by (simp add: s_def)
  have s_le: "s \<le> length pre" by (simp add: s_def)
  show ?case
  proof (cases "chunk = []")
    case True
    then have rest: "rest = []" by (simp add: chunk_def chunk_size_def)
    have none: "scan_loop rest prev_tail file_offset = None"
      using True by (subst scan_loop.simps) (simp add: chunk_def)
    have "\<not> occurs_at (pre @ rest) P" for P
    proof
      assume "occurs_at (pre @ rest) P"
      from occurs_at_bound[OF this] have "P + 32 \<le> length pre" by (simp add: rest)
      with less.prems(3) \<open>occurs_at (pre @ rest) P\<close> show False by blast
    qed
    with none show ?thesis by simp
  next
    case False
    have tk: "take (min (length rest) chunk_size) rest = take chunk_size rest"
      by (simp add: min_def)
    have data_window: "data = take m (drop s img)"
      by (simp add: data_def m_def tail img_def s_le chunk_def tk)
    have occ_data: "take 32 (drop j data) = AOB_PATTERN \<longleftrightarrow> occurs_at img (s + j) \<and> j + 32 \<le> m" for j
    proof
      assume a: "take 32 (drop j data) = AOB_PATTERN"
      then have "length (take 32 (drop j data)) = 32" by (simp add: length_AOB)
      then have b: "j + 32 \<le> m" by (simp add: m_def)
      have "take 32 (drop ((s + j) - s) (take m (drop s img))) = take 32 (drop (s + j) img)"
        by (rule window_occ) (use b in simp_all)
      with a b show "occurs_at img (s + j) \<and> j + 32 \<le> m"
        by (simp add: occurs_at_def plen_32 data_window[symmetric])
    next
      assume a: "occurs_at img (s + j) \<and> j + 32 \<le> m"
      have "take 32 (drop ((s + j) - s) (take m (drop s img))) = take 32 (drop (s + j) img)"
        by (rule window_occ) (use a in simp_all)
      with a show "take 32 (drop j data) = AOB_PATTERN"
        by (simp add: occurs_at_def plen_32 data_window[symmetric])
    qed
    have unfold: "scan_loop rest prev_tail file_offset =
        (if bytes_find data AOB_PATTERN \<noteq> - 1
         then Some ((file_offset - int (length prev_tail)) + bytes_find data AOB_PATTERN + 0x3D0)
         else scan_loop (drop chunk_size rest)
              (if length data \<ge> plen - 1 then drop (length data - (plen - 1)) data else data)
              (file_offset + int (length chunk)))"
      using False by (subst scan_loop.simps) (simp add: chunk_def data_def Let_def)
    show ?thesis
    proof (cases "bytes_find data AOB_PATTERN = - 1")
      case found: False
      then obtain j where j: "bytes_find data AOB_PATTERN = int j"
          "take 32 (drop j data) = AOB_PATTERN"
          "\<forall>q<j. take 32 (drop q data) \<noteq> AOB_PATTERN"
        by (rule occurs_at_find_some)
      from j(2) have occ: "occurs_at img (s + j)" and jm: "j + 32 \<le> m"
        by (simp_all add: occ_data)
      have first: "\<not> occurs_at img Q" if "Q < s + j" for Q
      proof (cases "Q < s")
        case True
        then have "Q + 32 \<le> length pre" by (simp add: s_def)
        with inv show ?thesis by blast
      next
        case F: False
        show ?thesis
        proof
          assume o: "occurs_at img Q"
          have "take 32 (drop (Q - s) data) = AOB_PATTERN"
            using occ_data[of "Q - s"] o F that jm by simp
          moreover have "Q - s < j" using F that by simp
          ultimately show False using j(3) by blast
        qed
      qed
      have "scan_loop rest prev_tail file_offset =
          Some ((file_offset - int (length prev_tail)) + int j + 0x3D0)"
        using found j(1) by (simp only: unfold if_True not_False_eq_True)
      then have res: "scan_loop rest prev_tail file_offset = Some (int (s + j) + 0x3D0)"
        using s_le by (simp add: tail less.prems(2))
      have uniq: "P = s + j" if "occurs_at img P" "\<forall>Q<P. \<not> occurs_at img Q" for P
      proof (rule ccontr)
        assume "P \<noteq> s + j"
        then consider "P < s + j" | "s + j < P" by linarith
        then show False
        proof cases
          case 1 with first that(1) show False by blast
        next
          case 2 with that(2) occ show False by blast
        qed
      qed
      show ?thesis
      proof (intro conjI impI allI)
        assume "\<forall>Q. \<not> occurs_at (pre @ rest) Q"
        with occ show "scan_loop rest prev_tail file_offset = None"
          by (simp add: img_def)
      next
        fix P
        assume "occurs_at (pre @ rest) P \<and> (\<forall>Q<P. \<not> occurs_at (pre @ rest) Q)"
        then have "P = s + j" using uniq[of P] by (simp add: img_def)
        with res show "scan_loop rest prev_tail file_offset = Some (int P + 0x3D0)"
          by simp
      qed
    next
      case nf: True
      then have nodata: "take 32 (drop j data) \<noteq> AOB_PATTERN" for j
        by (simp add: occurs_at_find_none)
      define rest' where "rest' = drop chunk_size rest"
      define pre' where "pre' = pre @ chunk"
      define tail' where "tail' = (if length data \<ge> plen - 1 then drop (length data - (plen - 1)) data else data)"
      have img': "pre' @ rest' = img" by (simp add: pre'_def rest'_def chunk_def img_def)
      have lt: "length rest' < length rest"
        using False by (auto simp: rest'_def chunk_def chunk_size_def)
      have data_pre': "data = drop s pre'" by (simp add: data_def tail pre'_def s_le)
      have t': "tail' = drop (length pre' - 31) pre'"
      proof (cases "31 \<le> length data")
        case True
        then show ?thesis using s_le
          by (simp add: tail'_def plen_32 data_pre' pre'_def) 
      next
        case F2: False
        then have "s = 0" by (auto simp: data_def tail s_def)
        with F2 show ?thesis by (simp add: tail'_def plen_32 data_pre')
      qed
      have off': "file_offset + int (length chunk) = int (length pre')"
        by (simp add: less.prems(2) pre'_def)
      have inv': "\<forall>Q. Q + 32 \<le> length pre' \<longrightarrow> \<not> occurs_at (pre' @ rest') Q"
      proof (intro allI impI)
        fix Q assume q: "Q + 32 \<le> length pre'"
        show "\<not> occurs_at (pre' @ rest') Q"
        proof (cases "Q + 32 \<le> length pre")
          case True with inv show ?thesis by (simp add: img')
        next
          case F3: False
          then have sQ: "s \<le> Q" by (simp add: s_def)
          have "m = length pre' - s" by (simp add: m_def data_pre')
          with q sQ s_le have "(Q - s) + 32 \<le> m" by (simp add: pre'_def)
          with nodata[of "Q - s"] occ_data[of "Q - s"] sQ show ?thesis
            by (simp add: img')
        qed
      qed
      have step: "scan_loop rest prev_tail file_offset =
          scan_loop rest' tail' (file_offset + int (length chunk))"
        using nf by (simp only: unfold tail'_def rest'_def not_True_eq_False if_False simp_thms)
      from less.hyps[OF lt t' off' inv']
      show ?thesis by (simp only: step img' img_def)
    qed
  qed
qed


lemma occurs_at_nth: "occurs_at fl Q \<Longrightarrow> fl ! Q = 0x14"
proof -
  assume a: "occurs_at fl Q"
  from occurs_at_bound[OF a] have b: "Q < length fl" by simp
  from a have "take plen (drop Q fl) ! 0 = AOB_PATTERN ! 0"
    by (simp add: occurs_at_def)
  with b show ?thesis by (simp add: plen_32 AOB_PATTERN_def)
qed

text \<open>
  C1. When the signature occurs in the file and its first occurrence is at position
  \<open>P\<close>, the scan returns \<open>P + 0x3D0\<close>, wherever \<open>P\<close> lies with respect to the
  chunks of 8000 bytes; when the signature occurs nowhere, the scan returns \<open>None\<close>.
\<close>

theorem locate_first_occurrence:
  "(occurs_at contents P \<and> (\<forall>Q<P. \<not> occurs_at contents Q)
      \<longrightarrow> locate contents = Some (int P + 0x3D0)) \<and>
   ((\<forall>Q. \<not> occurs_at contents Q) \<longrightarrow> locate contents = None)"
  using scan_loop_correct[of "[]" "[]" 0 contents]
  by (simp add: locate_def)

text \<open>
  The signature at position 7990 lies across the end of the first chunk of 8000 bytes;
  a file of 9000 bytes that are all 1 has no signature.
\<close>

theorem locate_first_occurrence_witness:
  "occurs_at (replicate 7990 1 @ AOB_PATTERN) 7990 \<and>
   locate (replicate 7990 1 @ AOB_PATTERN) = Some 8966 \<and>
   locate (replicate 9000 1) = None"
proof -
  let ?F = "replicate 7990 (1::byte) @ AOB_PATTERN"
  let ?G = "replicate 9000 (1::byte)"
  have occ: "occurs_at ?F 7990"
    by (simp add: occurs_at_def plen_32 length_AOB)
  have first: "\<forall>Q<7990. \<not> occurs_at ?F Q"
  proof (intro allI impI notI)
    fix Q :: nat
    assume "Q < 7990" and "occurs_at ?F Q"
    from occurs_at_nth[OF this(2)] \<open>Q < 7990\<close> show False
      by (simp add: nth_append)
  qed
  have none: "\<forall>Q. \<not> occurs_at ?G Q"
  proof (intro allI notI)
    fix Q :: nat
    assume a: "occurs_at ?G Q"
    from occurs_at_bound[OF a] have "Q < 9000" by simp
    with occurs_at_nth[OF a] show False by simp
  qed
  from locate_first_occurrence[of ?F 7990] occ first
  have "locate ?F = Some 8966" by simp
  moreover from locate_first_occurrence[of ?G 0] none
  have "locate ?G = None" by blast
  ultimately show ?thesis using occ by simp
qed

section \<open>Submitting and displaying a slot\<close>

lemma in_range_simps: "int NUM_SLOTS_TOTAL = 895" "SLOT_SIZE = 22"
  by (simp_all add: NUM_SLOTS_TOTAL_def SLOT_SIZE_def)

lemma example_slot: "int_base16 ''0x0'' = Some 0"
  by (simp add: int_base16_def strip_sign_def strip_hex_prefix_def is_space_def
      hex_digit_value_def)

lemma example_editor_mem:
  "unit_mem example_editor = Some \<lparr>buf = replicate 19690 0, pos = 0\<rparr>"
  by (simp add: example_editor_def)

lemma example_editor_slot: "selected_slot_str example_editor = ''0x0''"
  by (simp add: example_editor_def)

text \<open>
  C4. With a buffer loaded and a valid slot selected, a submit whose Name is outside
  \<open>[0, 65535]\<close> only sets the status to the error about the Name; the buffer, with
  every byte of it, is the one before.
\<close>

theorem submit_name_out_of_range:
  assumes "unit_mem st = Some mem"
    and "0 \<le> get_selected_slot_index st \<and> get_selected_slot_index st < int NUM_SLOTS_TOTAL"
    and "name st < 0 \<or> 0xFFFF < name st"
  shows "submit_unit st = st\<lparr>status_label := (ErrorWithEntries NameRangeError, Red)\<rparr> \<and>
         unit_mem (submit_unit st) = Some mem"
proof -
  have "submit_unit st = st\<lparr>status_label := (ErrorWithEntries NameRangeError, Red)\<rparr>"
    using assms by (simp add: submit_unit_def Let_def) linarith
  then show ?thesis using assms(1) by simp
qed

theorem submit_name_out_of_range_witness:
  "submit_unit (example_editor\<lparr>name := 70000\<rparr>) =
     example_editor\<lparr>name := 70000, status_label := (ErrorWithEntries NameRangeError, Red)\<rparr>"
proof -
  have m: "unit_mem (example_editor\<lparr>name := 70000\<rparr>) =
      Some \<lparr>buf = replicate 19690 0, pos = 0\<rparr>"
    by (simp add: example_editor_mem)
  have s: "get_selected_slot_index (example_editor\<lparr>name := 70000\<rparr>) = 0"
    by (simp add: example_editor_slot get_selected_slot_index_def example_slot)
  have n: "name (example_editor\<lparr>name := 70000\<rparr>) = 70000" by simp
  from submit_name_out_of_range[OF m, unfolded s n]
  show ?thesis by (simp add: in_range_simps)
qed

text \<open>
  C8. For a slot index outside \<open>[0, 895)\<close>, \<^verbatim>\<open>unit_display\<close> fails: with a buffer
  loaded it only sets the status to the out-of-range error, and in every state it
  leaves the buffer with its position (nothing is read) and all the variables as
  they were.
\<close>

theorem unit_display_out_of_range:
  assumes "\<not> (0 \<le> slot_index \<and> slot_index < int NUM_SLOTS_TOTAL)"
  shows "(unit_mem st \<noteq> None \<longrightarrow>
            unit_display st slot_index =
              st\<lparr>status_label := (SlotOutOfRange slot_index, Red)\<rparr>) \<and>
         is_error (status_label (unit_display st slot_index)) \<and>
         unit_mem (unit_display st slot_index) = unit_mem st \<and>
         unit_fields.truncate (unit_display st slot_index) = unit_fields.truncate st"
proof (cases "unit_mem st")
  case None
  then have "unit_display st slot_index = st\<lparr>status_label := (NotLoaded, Red)\<rparr>"
    by (simp add: unit_display_def)
  then show ?thesis using None by (simp add: is_error_def unit_fields.truncate_def)
next
  case (Some mem)
  then have "unit_display st slot_index =
      st\<lparr>status_label := (SlotOutOfRange slot_index, Red)\<rparr>"
    using assms by (simp add: unit_display_def)
  then show ?thesis by (simp add: is_error_def unit_fields.truncate_def)
qed

theorem unit_display_out_of_range_witness:
  "unit_display example_editor 895 =
     example_editor\<lparr>status_label := (SlotOutOfRange 895, Red)\<rparr> \<and>
   unit_display example_editor (- 1) =
     example_editor\<lparr>status_label := (SlotOutOfRange (- 1), Red)\<rparr>"
proof -
  have m: "unit_mem example_editor \<noteq> None" by (simp add: example_editor_mem)
  from unit_display_out_of_range[of 895 example_editor]
    unit_display_out_of_range[of "- 1" example_editor] m
  show ?thesis by (simp add: in_range_simps)
qed

section \<open>Bytes of a record and of the buffer\<close>

lemma example_editor_name: "name example_editor = 0"
  by (simp add: example_editor_def)

lemma and_255: "(x::int) AND 0xFF = x mod 256"
proof -
  have m: "(0xFF::int) = mask 8" by (simp add: mask_eq_exp_minus_1)
  have "x AND mask 8 = x mod 2 ^ 8"
    by (simp only: take_bit_eq_mask[symmetric] take_bit_eq_mod)
  then show ?thesis by (simp only: m) simp
qed

lemma uint_byte_mask: "uint (word_of_int (x AND 0xFF) :: byte) = x mod 256"
  by (simp add: and_255 uint_word_of_int)

lemma to_bytes_little_2: "to_bytes_little 2 v = [word_of_int v, word_of_int (v div 256)]"
  by (simp add: to_bytes_little_def numeral_2_eq_2)

lemma from_to_bytes_little_2:
  assumes "0 \<le> v" "v \<le> 0xFFFF"
  shows "from_bytes_little (to_bytes_little 2 v) = v"
proof -
  have "from_bytes_little (to_bytes_little 2 v) = v mod 256 + 256 * ((v div 256) mod 256)"
    by (simp add: to_bytes_little_2 from_bytes_little_def uint_word_of_int)
  also have "(v div 256) mod 256 = v div 256" using assms by simp
  finally show ?thesis by simp
qed

lemma length_encode_record: "length (encode_record st) = 22"
  by (simp add: encode_record_def to_bytes_little_2)

lemma length_overwrite_at:
  "p + length new \<le> length old \<Longrightarrow> length (overwrite_at old p new) = length old"
  by (simp add: overwrite_at_def)

lemma overwrite_at_inside:
  "p + length new \<le> length old \<Longrightarrow>
   overwrite_at old p new = take p old @ new @ drop (p + length new) old"
  by (simp add: overwrite_at_def)

lemma nth_overwrite_at_outside:
  assumes "p + length new \<le> length old" "j < length old" "\<not> (p \<le> j \<and> j < p + length new)"
  shows "overwrite_at old p new ! j = old ! j"
proof (cases "j < p")
  case True
  with assms show ?thesis by (simp add: overwrite_at_inside nth_append)
next
  case False
  with assms have le: "p + length new \<le> j" by simp
  have "overwrite_at old p new = (take p old @ new) @ drop (p + length new) old"
    using assms(1) by (simp add: overwrite_at_inside)
  moreover have "length (take p old @ new) = p + length new" using assms(1) by simp
  ultimately have "overwrite_at old p new ! j = drop (p + length new) old ! (j - (p + length new))"
    using le by (simp only: nth_append) simp
  also have "\<dots> = old ! j" using le assms(2) by simp
  finally show ?thesis .
qed

lemma read_overwrite_at:
  "take (length new) (drop p (overwrite_at old p new)) = new"
  by (simp add: overwrite_at_def min_def)

lemma submit_unit_success:
  assumes "unit_mem st = Some mem"
    and "get_selected_slot_index st = i"
    and "0 \<le> i \<and> i < int NUM_SLOTS_TOTAL"
    and "0 \<le> name st \<and> name st \<le> 0xFFFF"
  shows "submit_unit st =
           st\<lparr>unit_mem := Some \<lparr>buf = overwrite_at (buf mem) (nat i * SLOT_SIZE) (encode_record st),
                                 pos = nat i * SLOT_SIZE + 22\<rparr>,
              status_label := (ValuesWritten i, Green)\<rparr>"
  using assms
  by (simp add: submit_unit_def Let_def bio_write_def bio_seek_def length_encode_record)

lemma slot_inside:
  assumes "0 \<le> i \<and> i < int NUM_SLOTS_TOTAL"
  shows "nat i * SLOT_SIZE + 22 \<le> NUM_SLOTS_TOTAL * SLOT_SIZE"
proof -
  from assms have "i < 895" by (simp add: NUM_SLOTS_TOTAL_def)
  then have "nat i < 895" by linarith
  then show ?thesis by (simp add: NUM_SLOTS_TOTAL_def SLOT_SIZE_def)
qed

text \<open>
  C9. A submit that succeeds on a buffer of 19690 bytes (a valid slot \<open>i\<close> selected,
  the Name in range) leaves the buffer 19690 bytes long and changes no byte outside
  the 22 bytes from \<open>i * 22\<close>.
\<close>

theorem submit_unit_frame:
  assumes "unit_mem st = Some mem"
    and "length (buf mem) = NUM_SLOTS_TOTAL * SLOT_SIZE"
    and "get_selected_slot_index st = i"
    and "0 \<le> i \<and> i < int NUM_SLOTS_TOTAL"
    and "0 \<le> name st \<and> name st \<le> 0xFFFF"
  shows "\<exists>mem'. unit_mem (submit_unit st) = Some mem' \<and>
           status_label (submit_unit st) = (ValuesWritten i, Green) \<and>
           length (buf mem') = NUM_SLOTS_TOTAL * SLOT_SIZE \<and>
           (\<forall>j < NUM_SLOTS_TOTAL * SLOT_SIZE.
              \<not> (nat i * SLOT_SIZE \<le> j \<and> j < nat i * SLOT_SIZE + SLOT_SIZE)
              \<longrightarrow> buf mem' ! j = buf mem ! j)"
proof -
  let ?off = "nat i * SLOT_SIZE"
  let ?rec = "encode_record st"
  let ?buf = "overwrite_at (buf mem) ?off ?rec"
  have fits: "?off + length ?rec \<le> length (buf mem)"
    using slot_inside[OF assms(4)] assms(2) by (simp add: length_encode_record)
  have len: "length ?buf = NUM_SLOTS_TOTAL * SLOT_SIZE"
    using length_overwrite_at[OF fits] assms(2) by simp
  have frame: "?buf ! j = buf mem ! j"
    if "j < NUM_SLOTS_TOTAL * SLOT_SIZE" "\<not> (?off \<le> j \<and> j < ?off + SLOT_SIZE)" for j
    using nth_overwrite_at_outside[OF fits, of j] that assms(2)
    by (simp add: length_encode_record SLOT_SIZE_def)
  from submit_unit_success[OF assms(1,3,4,5)]
  have "unit_mem (submit_unit st) = Some \<lparr>buf = ?buf, pos = ?off + 22\<rparr>"
    and "status_label (submit_unit st) = (ValuesWritten i, Green)"
    by simp_all
  with len frame show ?thesis by simp
qed

theorem submit_unit_frame_witness:
  "\<exists>mem'. unit_mem (submit_unit (example_editor\<lparr>voice := 7\<rparr>)) = Some mem' \<and>
      length (buf mem') = 19690 \<and> buf mem' ! 22 = 0 \<and> buf mem' ! 19689 = 0"
proof -
  let ?st = "example_editor\<lparr>voice := 7\<rparr>"
  let ?mem = "\<lparr>buf = replicate 19690 (0::byte), pos = 0\<rparr>"
  have m: "unit_mem ?st = Some ?mem"
    by (simp add: example_editor_mem)
  have l: "length (buf ?mem) = NUM_SLOTS_TOTAL * SLOT_SIZE"
    by (simp add: NUM_SLOTS_TOTAL_def SLOT_SIZE_def)
  have s: "get_selected_slot_index ?st = 0"
    by (simp add: get_selected_slot_index_def example_editor_slot example_slot)
  have r: "0 \<le> (0::int) \<and> (0::int) < int NUM_SLOTS_TOTAL" by (simp add: in_range_simps)
  have n: "0 \<le> name ?st \<and> name ?st \<le> 0xFFFF" by (simp add: example_editor_name)
  from submit_unit_frame[OF m l s r n] obtain mem' where
    a: "unit_mem (submit_unit ?st) = Some mem'"
    and b: "length (buf mem') = NUM_SLOTS_TOTAL * SLOT_SIZE"
    and c: "\<forall>j < NUM_SLOTS_TOTAL * SLOT_SIZE.
              \<not> (nat 0 * SLOT_SIZE \<le> j \<and> j < nat 0 * SLOT_SIZE + SLOT_SIZE)
              \<longrightarrow> buf mem' ! j = buf ?mem ! j"
    by blast
  from c[rule_format, of 22] have "buf mem' ! 22 = 0"
    by (simp add: NUM_SLOTS_TOTAL_def SLOT_SIZE_def)
  moreover from c[rule_format, of 19689] have "buf mem' ! 19689 = 0"
    by (simp add: NUM_SLOTS_TOTAL_def SLOT_SIZE_def)
  ultimately show ?thesis using a b by (simp add: NUM_SLOTS_TOTAL_def SLOT_SIZE_def)
qed


section \<open>Displaying what was submitted\<close>

lemma unit_display_fields:
  assumes "unit_mem st = Some mem"
    and "0 \<le> i \<and> i < int NUM_SLOTS_TOTAL"
    and "take 22 (drop (nat i * SLOT_SIZE) (buf mem)) = d"
    and "length d = 22"
  shows "unit_fields.truncate (unit_display st i) =
     \<lparr>name = from_bytes_little (take 2 d), unknown1 = uint (d ! 2), voice = uint (d ! 3),
      model = uint (d ! 4), color = uint (d ! 5), moveset = uint (d ! 6),
      horse = uint (d ! 7), life = uint (d ! 8), attack = uint (d ! 9),
      defense = uint (d ! 10), bow = uint (d ! 11), mounted = uint (d ! 12),
      speed = uint (d ! 13), strafespeed = uint (d ! 14), jump = uint (d ! 15),
      ailevel = uint (d ! 16), aitype = uint (d ! 17), unknown2 = uint (d ! 18),
      weapon = uint (d ! 19), weaponlevel = uint (d ! 20), orb = uint (d ! 21)\<rparr>"
proof -
  have "length (take 22 (drop (nat i * SLOT_SIZE) (buf mem))) = 22"
    using assms(3,4) by simp
  then have l: "min (length (buf mem) - nat i * 22) 22 = 22"
    by (simp add: SLOT_SIZE_def)
  show ?thesis
    using assms(1,2) l
    by (simp add: unit_display_def Let_def bio_read_def bio_seek_def SLOT_SIZE_def
        unit_fields.truncate_def assms(3)[symmetric])
qed

lemma decode_encode_record:
  assumes "0 \<le> name f \<and> name f \<le> 0xFFFF"
  shows "\<lparr>name = from_bytes_little (take 2 (encode_record f)),
      unknown1 = uint (encode_record f ! 2), voice = uint (encode_record f ! 3),
      model = uint (encode_record f ! 4), color = uint (encode_record f ! 5),
      moveset = uint (encode_record f ! 6), horse = uint (encode_record f ! 7),
      life = uint (encode_record f ! 8), attack = uint (encode_record f ! 9),
      defense = uint (encode_record f ! 10), bow = uint (encode_record f ! 11),
      mounted = uint (encode_record f ! 12), speed = uint (encode_record f ! 13),
      strafespeed = uint (encode_record f ! 14), jump = uint (encode_record f ! 15),
      ailevel = uint (encode_record f ! 16), aitype = uint (encode_record f ! 17),
      unknown2 = uint (encode_record f ! 18), weapon = uint (encode_record f ! 19),
      weaponlevel = uint (encode_record f ! 20), orb = uint (encode_record f ! 21)\<rparr>
    = mask_fields (unit_fields.truncate f)"
proof -
  have n: "from_bytes_little (take 2 (encode_record f)) = name f"
    using from_to_bytes_little_2[of "name f"] assms
    by (simp add: encode_record_def to_bytes_little_2)
  show ?thesis
    unfolding n
    by (simp add: encode_record_def to_bytes_little_2 uint_byte_mask mask_fields_def
        unit_fields.truncate_def)
qed

lemma mask_fields_id: "byte_fields f \<Longrightarrow> mask_fields f = f"
  by (simp add: byte_fields_def mask_fields_def)

lemma display_after_submit:
  assumes "unit_mem st = Some mem"
    and "get_selected_slot_index st = i"
    and "0 \<le> i \<and> i < int NUM_SLOTS_TOTAL"
    and "0 \<le> name st \<and> name st \<le> 0xFFFF"
    and "unit_mem st2 = unit_mem (submit_unit st)"
  shows "unit_fields.truncate (unit_display st2 i) = mask_fields (unit_fields.truncate st)"
proof -
  let ?off = "nat i * SLOT_SIZE"
  let ?mem' = "\<lparr>buf = overwrite_at (buf mem) ?off (encode_record st), pos = ?off + 22\<rparr>"
  from submit_unit_success[OF assms(1-4)] assms(5)
  have m2: "unit_mem st2 = Some ?mem'" by simp
  have rd: "take 22 (drop ?off (buf ?mem')) = encode_record st"
    using read_overwrite_at[of "encode_record st" ?off "buf mem"]
    by (simp add: length_encode_record)
  show ?thesis
    by (rule trans[OF unit_display_fields[OF m2 assms(3) rd length_encode_record]
          decode_encode_record[OF assms(4)]])
qed

text \<open>
  C2, as amended. After a submit to a valid slot \<open>i\<close> with the Name in
  \<open>[0, 65535]\<close>, displaying slot \<open>i\<close> from the resulting buffer sets the variables
  to the submitted field set with every variable but the Name reduced to its low 8
  bits; it is the submitted field set itself when those variables are in
  \<open>[0, 255]\<close>.
\<close>

theorem decode_encode_roundtrip:
  assumes "unit_mem st = Some mem"
    and "get_selected_slot_index st = i"
    and "0 \<le> i \<and> i < int NUM_SLOTS_TOTAL"
    and "0 \<le> name st \<and> name st \<le> 0xFFFF"
    and "unit_mem st2 = unit_mem (submit_unit st)"
  shows "unit_fields.truncate (unit_display st2 i) = mask_fields (unit_fields.truncate st) \<and>
         (byte_fields (unit_fields.truncate st) \<longrightarrow>
            unit_fields.truncate (unit_display st2 i) = unit_fields.truncate st)"
  using display_after_submit[OF assms] mask_fields_id[of "unit_fields.truncate st"]
  by simp

lemma example_editor_fields: "unit_fields.truncate example_editor =
   \<lparr>name = 0, unknown1 = 0, voice = 0, model = 0, color = 0, moveset = 0, horse = 0,
      life = 0, attack = 0, defense = 0, bow = 0, mounted = 0, speed = 0,
      strafespeed = 0, jump = 0, ailevel = 0, aitype = 0, unknown2 = 0, weapon = 0,
      weaponlevel = 0, orb = 0\<rparr>"
  by (simp add: example_editor_def unit_fields.truncate_def)

lemma truncate_voice_update:
  "unit_fields.truncate (st\<lparr>voice := v\<rparr>) = (unit_fields.truncate st)\<lparr>voice := v\<rparr>"
  by (simp add: unit_fields.truncate_def)

lemma voice_truncate: "voice (unit_fields.truncate st) = voice st"
  by (simp add: unit_fields.truncate_def)

lemma voice_mask_fields: "voice (mask_fields f) = voice f mod 256"
  by (simp add: mask_fields_def)

text \<open>
  C2 as stated fails: with Voice 300, Name 0 and slot 0, the submit writes the byte 44
  and the display reads 44 back.
\<close>

theorem roundtrip_counterexample:
  "unit_mem (example_editor\<lparr>voice := 300\<rparr>) = Some \<lparr>buf = replicate 19690 0, pos = 0\<rparr> \<and>
   get_selected_slot_index (example_editor\<lparr>voice := 300\<rparr>) = 0 \<and>
   name (example_editor\<lparr>voice := 300\<rparr>) = 0 \<and>
   voice (example_editor\<lparr>voice := 300\<rparr>) = 300 \<and>
   voice (unit_display (submit_unit (example_editor\<lparr>voice := 300\<rparr>)) 0) = 44"
proof -
  let ?st = "example_editor\<lparr>voice := 300\<rparr>"
  have m: "unit_mem ?st = Some \<lparr>buf = replicate 19690 0, pos = 0\<rparr>"
    by (simp add: example_editor_mem)
  have s: "get_selected_slot_index ?st = 0"
    by (simp add: get_selected_slot_index_def example_editor_slot example_slot)
  have r: "0 \<le> (0::int) \<and> (0::int) < int NUM_SLOTS_TOTAL" by (simp add: in_range_simps)
  have n: "0 \<le> name ?st \<and> name ?st \<le> 0xFFFF" by (simp add: example_editor_name)
  have "unit_fields.truncate (unit_display (submit_unit ?st) 0) =
      mask_fields (unit_fields.truncate ?st)"
    by (rule display_after_submit[OF m s r n refl])
  then have "voice (unit_fields.truncate (unit_display (submit_unit ?st) 0)) =
      voice (mask_fields (unit_fields.truncate ?st))" by (rule arg_cong)
  then have "voice (unit_display (submit_unit ?st) 0) = 44"
    by (simp only: voice_truncate voice_mask_fields) simp
  with m s show ?thesis by (simp add: example_editor_name)
qed

theorem decode_encode_roundtrip_witness:
  "byte_fields (unit_fields.truncate (example_editor\<lparr>voice := 200\<rparr>)) \<and>
   unit_fields.truncate (unit_display (submit_unit (example_editor\<lparr>voice := 200\<rparr>)) 0) =
     unit_fields.truncate (example_editor\<lparr>voice := 200\<rparr>)"
proof -
  let ?st = "example_editor\<lparr>voice := 200\<rparr>"
  have m: "unit_mem ?st = Some \<lparr>buf = replicate 19690 0, pos = 0\<rparr>"
    by (simp add: example_editor_mem)
  have s: "get_selected_slot_index ?st = 0"
    by (simp add: get_selected_slot_index_def example_editor_slot example_slot)
  have r: "0 \<le> (0::int) \<and> (0::int) < int NUM_SLOTS_TOTAL" by (simp add: in_range_simps)
  have n: "0 \<le> name ?st \<and> name ?st \<le> 0xFFFF" by (simp add: example_editor_name)
  have b: "byte_fields (unit_fields.truncate ?st)"
    by (simp add: truncate_voice_update example_editor_fields byte_fields_def)
  from decode_encode_roundtrip[OF m s r n refl] b show ?thesis by blast
qed

section \<open>A selector string that is no number\<close>

lemma bad_slot: "int_base16 ''zz'' = None"
  by (simp add: int_base16_def strip_sign_def strip_hex_prefix_def is_space_def
      hex_digit_value_def)

lemma unit_display_0_status:
  "status_label (unit_display st 0) \<noteq> (SlotOutOfRange k, Red)"
  by (cases "unit_mem st")
     (simp_all add: unit_display_def Let_def in_range_simps bio_read_def bio_seek_def)

lemma submit_unit_0_status:
  assumes "get_selected_slot_index st = 0"
  shows "status_label (submit_unit st) \<noteq> (ErrorWithEntries (SlotRangeError k), Red)"
  using assms
  by (cases "unit_mem st") (simp_all add: submit_unit_def Let_def in_range_simps)

text \<open>
  C10. When the selected-slot string is no hexadecimal integer, the slot index is 0:
  selecting the slot displays slot 0, a submit does what it does with slot
  \<^verbatim>\<open>0x0\<close> selected, and neither ends with the error of a slot out of range.
\<close>

theorem invalid_slot_string_is_slot_0:
  assumes "int_base16 (selected_slot_str st) = None"
  shows "get_selected_slot_index st = 0 \<and>
         slot_selected st = unit_display st 0 \<and>
         submit_unit st =
           (submit_unit (st\<lparr>selected_slot_str := ''0x0''\<rparr>))
             \<lparr>selected_slot_str := selected_slot_str st\<rparr> \<and>
         (\<forall>k. status_label (slot_selected st) \<noteq> (SlotOutOfRange k, Red)) \<and>
         (\<forall>k. status_label (submit_unit st) \<noteq> (ErrorWithEntries (SlotRangeError k), Red))"
proof -
  have g: "get_selected_slot_index st = 0"
    using assms by (simp add: get_selected_slot_index_def)
  have g0: "get_selected_slot_index (st\<lparr>selected_slot_str := ''0x0''\<rparr>) = 0"
    by (simp add: get_selected_slot_index_def example_slot)
  have e: "encode_record (st\<lparr>selected_slot_str := ''0x0''\<rparr>) = encode_record st"
    by (simp add: encode_record_def)
  have "submit_unit st =
           (submit_unit (st\<lparr>selected_slot_str := ''0x0''\<rparr>))
             \<lparr>selected_slot_str := selected_slot_str st\<rparr>"
    by (cases "unit_mem st") (simp_all add: submit_unit_def g g0 e Let_def)
  with g unit_display_0_status[of st] submit_unit_0_status[OF g]
  show ?thesis by (simp add: slot_selected_def)
qed

theorem invalid_slot_string_is_slot_0_witness:
  "int_base16 ''zz'' = None \<and>
   status_label (slot_selected (example_editor\<lparr>selected_slot_str := ''zz''\<rparr>)) =
     (LoadedSlot 0 0, Green) \<and>
   status_label (submit_unit (example_editor\<lparr>selected_slot_str := ''zz''\<rparr>)) =
     (ValuesWritten 0, Green)"
proof -
  let ?st = "example_editor\<lparr>selected_slot_str := ''zz''\<rparr>"
  let ?mem = "\<lparr>buf = replicate 19690 (0::byte), pos = 0\<rparr>"
  have h: "int_base16 (selected_slot_str ?st) = None" by (simp add: bad_slot)
  have m0: "unit_mem (?st\<lparr>selected_slot_str := ''0x0''\<rparr>) = Some ?mem"
    by (simp add: example_editor_mem)
  have m: "unit_mem ?st = Some ?mem"
    by (simp add: example_editor_mem)
  have s0: "get_selected_slot_index (?st\<lparr>selected_slot_str := ''0x0''\<rparr>) = 0"
    by (simp add: get_selected_slot_index_def example_slot)
  have r: "0 \<le> (0::int) \<and> (0::int) < int NUM_SLOTS_TOTAL" by (simp add: in_range_simps)
  have n: "0 \<le> name (?st\<lparr>selected_slot_str := ''0x0''\<rparr>) \<and>
      name (?st\<lparr>selected_slot_str := ''0x0''\<rparr>) \<le> 0xFFFF"
    by (simp add: example_editor_name)
  note t = invalid_slot_string_is_slot_0[OF h]
  have d: "status_label (unit_display ?st 0) = (LoadedSlot 0 0, Green)"
    using m by (simp add: unit_display_def Let_def bio_read_def bio_seek_def in_range_simps)
  have "status_label (submit_unit (?st\<lparr>selected_slot_str := ''0x0''\<rparr>)) = (ValuesWritten 0, Green)"
    using submit_unit_success[OF m0 s0 r n] by simp
  with t d show ?thesis by (simp add: bad_slot)
qed

section \<open>Loading an image\<close>

lemma locate_found:
  "occurs_at c P \<Longrightarrow> \<forall>Q<P. \<not> occurs_at c Q \<Longrightarrow> locate c = Some (int P + 0x3D0)"
  using scan_loop_correct[of "[]" "[]" 0 c] by (simp add: locate_def)

lemma locate_none:
  "\<forall>Q. \<not> occurs_at c Q \<Longrightarrow> locate c = None"
  using scan_loop_correct[of "[]" "[]" 0 c] by (simp add: locate_def)

lemma locate_Some_first:
  assumes "locate c = Some off"
  shows "\<exists>P. occurs_at c P \<and> (\<forall>Q<P. \<not> occurs_at c Q) \<and> off = int P + 0x3D0"
proof (cases "\<exists>Q. occurs_at c Q")
  case False
  with locate_none[of c] assms show ?thesis by simp
next
  case True
  define P where "P = (LEAST Q. occurs_at c Q)"
  have occ: "occurs_at c P" unfolding P_def using True by (auto intro: LeastI)
  have first: "\<forall>Q<P. \<not> occurs_at c Q" unfolding P_def by (auto dest: not_less_Least)
  from locate_found[OF occ first] assms occ first show ?thesis by auto
qed

lemma locate_nonneg: "locate c = Some off \<Longrightarrow> 0x3D0 \<le> off"
  by (drule locate_Some_first) auto

lemma total_bytes: "SLOT_SIZE * NUM_SLOTS_TOTAL = 19690"
  by (simp add: SLOT_SIZE_def NUM_SLOTS_TOTAL_def)

lemma load_success:
  assumes "dw_iso st \<noteq> []"
    and "fs (dw_iso st) = Some contents"
    and "locate contents = Some off"
    and "nat off + SLOT_SIZE * NUM_SLOTS_TOTAL \<le> length contents"
  shows "load_unit_data_in_memory (st, fs) =
    (st\<lparr>unit_mem := Some \<lparr>buf = take 19690 (drop (nat off) contents), pos = 0\<rparr>,
        iso_unit_offset := Some off,
        status_label := (BlockLoaded, Green)\<rparr>,
     if fs (backup_path_of (dw_iso st)) = None
     then fs(backup_path_of (dw_iso st) \<mapsto> take 19690 (drop (nat off) contents))
     else fs)"
proof -
  have "min (length contents - nat off) 19690 = 19690"
    using assms(4) by (simp add: total_bytes)
  then show ?thesis
    using assms(1-3)
    by (simp add: load_unit_data_in_memory_def Let_def total_bytes)
qed

lemma load_short_read:
  assumes "dw_iso st \<noteq> []"
    and "fs (dw_iso st) = Some contents"
    and "locate contents = Some off"
    and "length contents < nat off + SLOT_SIZE * NUM_SLOTS_TOTAL"
  shows "load_unit_data_in_memory (st, fs) =
    (st\<lparr>unit_mem := None, iso_unit_offset := None,
        status_label := (UnexpectedEOF 19690 (length contents - nat off), Red)\<rparr>, fs)"
proof -
  have "min (length contents - nat off) 19690 = length contents - nat off"
    and "length contents - nat off \<noteq> 19690"
    using assms(4) by (simp_all add: total_bytes)
  then show ?thesis
    using assms(1-3)
    by (simp add: load_unit_data_in_memory_def Let_def total_bytes)
qed

lemma load_not_found:
  assumes "dw_iso st \<noteq> []"
    and "fs (dw_iso st) = Some contents"
    and "locate contents = None"
  shows "load_unit_data_in_memory (st, fs) =
    (st\<lparr>unit_mem := None, iso_unit_offset := None,
        status_label := (CouldNotLocate, Red)\<rparr>, fs)"
  using assms by (simp add: load_unit_data_in_memory_def)

lemma load_no_iso:
  "dw_iso st = [] \<Longrightarrow>
   load_unit_data_in_memory (st, fs) = (st\<lparr>status_label := (NoISOSelected, Red)\<rparr>, fs)"
  by (simp add: load_unit_data_in_memory_def)

lemma load_no_file:
  "dw_iso st \<noteq> [] \<Longrightarrow> fs (dw_iso st) = None \<Longrightarrow>
   load_unit_data_in_memory (st, fs) = (st\<lparr>status_label := (ISONotFound, Red)\<rparr>, fs)"
  by (simp add: load_unit_data_in_memory_def)

lemma example_editor_iso: "dw_iso example_editor = ''game.iso''"
  by (simp add: example_editor_def)

lemma length_AOB_PATTERN: "length AOB_PATTERN = 32"
  by (simp add: AOB_PATTERN_def)

lemma occurs_at_0: "occurs_at (AOB_PATTERN @ rest) 0"
  by (simp add: occurs_at_def plen_def)

lemma locate_example_image: "locate example_image = Some 976"
  using locate_found[of example_image 0] occurs_at_0[of "replicate 944 0 @ replicate 19690 5"]
  by (simp add: example_image_def)

lemma locate_pattern_only: "locate AOB_PATTERN = Some 976"
  using locate_found[of AOB_PATTERN 0] occurs_at_0[of "[]"]
  by simp

lemma example_backup_path:
  "backup_path_of ''game.iso'' = ''Backups_For_Mod_Disabling/game_Original.unitdata''"
  by (simp add: backup_path_of_def basename_def splitext_root_def BACKUP_DIR_def Let_def)

text \<open>
  C6. When the signature is found but fewer than 19690 bytes follow the table offset,
  the load ends with the buffer and the offset unset and the message of the short
  read (wanted 19690, got what was left); no file is written.
\<close>

theorem load_truncated:
  assumes "dw_iso st \<noteq> []"
    and "fs (dw_iso st) = Some contents"
    and "locate contents = Some off"
    and "length contents < nat off + SLOT_SIZE * NUM_SLOTS_TOTAL"
  shows "load_unit_data_in_memory (st, fs) =
           (st\<lparr>unit_mem := None, iso_unit_offset := None,
               status_label :=
                 (UnexpectedEOF (SLOT_SIZE * NUM_SLOTS_TOTAL) (length contents - nat off), Red)\<rparr>,
            fs) \<and>
         unit_mem (fst (load_unit_data_in_memory (st, fs))) = None"
  using load_short_read[of st fs contents off, OF assms] by (simp add: total_bytes)

theorem load_truncated_witness:
  "load_unit_data_in_memory (example_editor, [''game.iso'' \<mapsto> AOB_PATTERN]) =
     (example_editor\<lparr>unit_mem := None, iso_unit_offset := None,
        status_label := (UnexpectedEOF 19690 0, Red)\<rparr>,
      [''game.iso'' \<mapsto> AOB_PATTERN])"
proof -
  let ?fs = "[''game.iso'' \<mapsto> AOB_PATTERN]"
  have a: "dw_iso example_editor \<noteq> []" by (simp add: example_editor_iso)
  have b: "?fs (dw_iso example_editor) = Some AOB_PATTERN" by (simp add: example_editor_iso)
  have c: "length AOB_PATTERN < nat 976 + SLOT_SIZE * NUM_SLOTS_TOTAL"
    by (simp add: length_AOB_PATTERN total_bytes)
  from load_truncated[of example_editor ?fs AOB_PATTERN 976, OF a b locate_pattern_only c]
  show ?thesis by (simp add: total_bytes length_AOB_PATTERN)
qed

text \<open>
  C7. A successful load of an image whose backup does not exist yet writes the 19690
  table bytes as the backup, and nothing else. A later load under the same image name,
  whatever the image holds by then, writes no file: the backup still holds the table
  bytes of the first load.
\<close>

theorem backup_written_once:
  assumes "dw_iso st \<noteq> []"
    and "fs (dw_iso st) = Some contents"
    and "locate contents = Some off"
    and "nat off + SLOT_SIZE * NUM_SLOTS_TOTAL \<le> length contents"
    and "fs (backup_path_of (dw_iso st)) = None"
    and "dw_iso st2 = dw_iso st"
    and "fs2 (backup_path_of (dw_iso st)) =
           snd (load_unit_data_in_memory (st, fs)) (backup_path_of (dw_iso st))"
  shows "snd (load_unit_data_in_memory (st, fs)) =
           fs(backup_path_of (dw_iso st) \<mapsto>
                take (SLOT_SIZE * NUM_SLOTS_TOTAL) (drop (nat off) contents)) \<and>
         snd (load_unit_data_in_memory (st2, fs2)) = fs2 \<and>
         snd (load_unit_data_in_memory (st2, fs2)) (backup_path_of (dw_iso st)) =
           Some (take (SLOT_SIZE * NUM_SLOTS_TOTAL) (drop (nat off) contents))"
proof -
  let ?table = "take (SLOT_SIZE * NUM_SLOTS_TOTAL) (drop (nat off) contents)"
  let ?bp = "backup_path_of (dw_iso st)"
  have first: "snd (load_unit_data_in_memory (st, fs)) = fs(?bp \<mapsto> ?table)"
    using load_success[of st fs contents off, OF assms(1-4)] assms(5) by (simp add: total_bytes)
  then have ex: "fs2 (backup_path_of (dw_iso st2)) = Some ?table"
    using assms(6,7) by simp
  have second: "snd (load_unit_data_in_memory (st2, fs2)) = fs2"
    using ex by (simp add: load_unit_data_in_memory_def Let_def split: option.splits)
  from first second ex assms(6) show ?thesis by simp
qed

lemma example_table: "take 19690 (drop 976 example_image) = replicate 19690 5"
  by (simp add: example_image_def length_AOB_PATTERN)

lemma length_example_image: "length example_image = 20666"
  by (simp add: example_image_def length_AOB_PATTERN)

theorem backup_written_once_witness:
  "snd (load_unit_data_in_memory (example_editor, example_fs))
     ''Backups_For_Mod_Disabling/game_Original.unitdata'' = Some (replicate 19690 5) \<and>
   snd (load_unit_data_in_memory (load_unit_data_in_memory (example_editor, example_fs))) =
     snd (load_unit_data_in_memory (example_editor, example_fs))"
proof -
  let ?r = "load_unit_data_in_memory (example_editor, example_fs)"
  have a: "dw_iso example_editor \<noteq> []" by (simp add: example_editor_iso)
  have b: "example_fs (dw_iso example_editor) = Some example_image"
    by (simp add: example_editor_iso example_fs_def)
  have c: "nat 976 + SLOT_SIZE * NUM_SLOTS_TOTAL \<le> length example_image"
    by (simp add: total_bytes length_example_image)
  have d: "example_fs (backup_path_of (dw_iso example_editor)) = None"
    by (simp add: example_editor_iso example_backup_path example_fs_def)
  have e: "dw_iso (fst ?r) = dw_iso example_editor"
    using load_success[of example_editor example_fs example_image 976, OF a b locate_example_image c]
    by simp
  from backup_written_once[of example_editor example_fs example_image 976 "fst ?r" "snd ?r",
      OF a b locate_example_image c d e refl]
  show ?thesis
    by (simp add: total_bytes example_table example_editor_iso example_backup_path)
qed


section \<open>Applying a block to the image\<close>

text \<open>
  The manager that \<^verbatim>\<open>open_mod_manager\<close> creates has the path and the offset of
  the editor and blocks of 19690 bytes.
\<close>

lemma open_mod_manager_fields:
  assumes "open_mod_manager st = (st', Some mm)"
  shows "st' = st \<and> iso_path mm = dw_iso st \<and>
         iso_unit_offset st = Some (mm_iso_unit_offset mm) \<and>
         block_size mm = SLOT_SIZE * NUM_SLOTS_TOTAL"
  using assms by (cases "iso_unit_offset st") (auto simp: open_mod_manager_def)

text \<open>After a successful load the table lies inside the image, at the stored offset.\<close>

lemma loaded_table_inside:
  assumes "status_label (fst (load_unit_data_in_memory (st, fs))) = (BlockLoaded, Green)"
  shows "\<exists>contents off. fs (dw_iso st) = Some contents \<and>
           iso_unit_offset (fst (load_unit_data_in_memory (st, fs))) = Some off \<and>
           dw_iso (fst (load_unit_data_in_memory (st, fs))) = dw_iso st \<and>
           0 \<le> off \<and> nat off + SLOT_SIZE * NUM_SLOTS_TOTAL \<le> length contents"
proof (cases "dw_iso st = []")
  case True
  with assms load_no_iso[of st fs] show ?thesis by simp
next
  case ne: False
  show ?thesis
  proof (cases "fs (dw_iso st)")
    case None
    with assms load_no_file[of st fs] ne show ?thesis by simp
  next
    case (Some contents)
    show ?thesis
    proof (cases "locate contents")
      case None
      with assms load_not_found[of st fs contents] ne Some show ?thesis by simp
    next
      case found: (Some off)
      show ?thesis
      proof (cases "length contents < nat off + SLOT_SIZE * NUM_SLOTS_TOTAL")
        case True
        with assms load_short_read[of st fs contents off] ne Some found show ?thesis by simp
      next
        case False
        then have le: "nat off + SLOT_SIZE * NUM_SLOTS_TOTAL \<le> length contents" by simp
        from load_success[of st fs contents off, OF ne Some found le] locate_nonneg[OF found] le Some
        show ?thesis by simp
      qed
    qed
  qed
qed

text \<open>
  Writing at a position: the length afterwards, and the bytes that are kept.
\<close>

lemma length_overwrite_at_max:
  "length (overwrite_at old p new) = max (length old) (p + length new)"
  by (simp add: overwrite_at_def)

lemma nth_overwrite_at_kept:
  assumes "j < length old" "\<not> (p \<le> j \<and> j < p + length new)"
  shows "overwrite_at old p new ! j = old ! j"
proof (cases "j < p")
  case True
  with assms(1) have "j < length (take p old)" by simp
  then have "overwrite_at old p new ! j = take p old ! j"
    by (simp only: overwrite_at_def nth_append if_True)
  with True show ?thesis by simp
next
  case False
  with assms have "p + length new \<le> length old" by simp
  from nth_overwrite_at_outside[OF this assms] show ?thesis .
qed

lemma enable_mod_writes:
  assumes "file_path \<noteq> []" "fs file_path = Some data" "length data = block_size mm"
    and "fs (iso_path mm) = Some contents" "0 \<le> mm_iso_unit_offset mm"
  shows "enable_mod file_path (mm, fs) =
           (mm\<lparr>mod_status := (ModEnabled (basename file_path), Green)\<rparr>,
            fs(iso_path mm \<mapsto> overwrite_at contents (nat (mm_iso_unit_offset mm)) data))"
  using assms by (simp add: enable_mod_def)

lemma disable_mod_writes:
  assumes "file_path \<noteq> []" "fs file_path = Some data" "length data = block_size mm"
    and "fs (iso_path mm) = Some contents" "0 \<le> mm_iso_unit_offset mm"
  shows "disable_mod file_path (mm, fs) =
           (mm\<lparr>mod_status := (BackupApplied (basename file_path), Green)\<rparr>,
            fs(iso_path mm \<mapsto> overwrite_at contents (nat (mm_iso_unit_offset mm)) data))"
  using assms by (simp add: disable_mod_def)

lemma enable_mod_size_error:
  assumes "file_path \<noteq> []" "fs file_path = Some data" "length data \<noteq> block_size mm"
  shows "enable_mod file_path (mm, fs) =
           (mm\<lparr>mod_status :=
                (ErrorEnablingMod (ModSizeError (length data) (block_size mm)), Red)\<rparr>, fs)"
  using assms by (simp add: enable_mod_def)

lemma disable_mod_size_error:
  assumes "file_path \<noteq> []" "fs file_path = Some data" "length data \<noteq> block_size mm"
  shows "disable_mod file_path (mm, fs) =
           (mm\<lparr>mod_status :=
                (ErrorDisablingMod (BackupSizeError (length data) (block_size mm)), Red)\<rparr>, fs)"
  using assms by (simp add: disable_mod_def)

text \<open>
  C5, as amended. With a manager for blocks of 19690 bytes and a chosen file that
  exists: when the file is not 19690 bytes long, enabling and disabling report the
  size error and leave the file system as it is. When it is 19690 bytes long, they
  write it into the image at the stored offset: the 19690 bytes from the offset are
  the block, every other byte of the image is kept, and the image is as long as the
  longer of its old length and offset + 19690. When the manager was opened after a
  successful load and the image is what that load read, the image keeps its length.
\<close>

theorem apply_block:
  assumes "file_path \<noteq> []"
    and "fs file_path = Some data"
    and "block_size mm = SLOT_SIZE * NUM_SLOTS_TOTAL"
  shows "(length data \<noteq> SLOT_SIZE * NUM_SLOTS_TOTAL \<longrightarrow>
            enable_mod file_path (mm, fs) =
              (mm\<lparr>mod_status :=
                   (ErrorEnablingMod (ModSizeError (length data) (SLOT_SIZE * NUM_SLOTS_TOTAL)),
                    Red)\<rparr>, fs) \<and>
            disable_mod file_path (mm, fs) =
              (mm\<lparr>mod_status :=
                   (ErrorDisablingMod
                      (BackupSizeError (length data) (SLOT_SIZE * NUM_SLOTS_TOTAL)),
                    Red)\<rparr>, fs)) \<and>
         (length data = SLOT_SIZE * NUM_SLOTS_TOTAL \<and>
          fs (iso_path mm) = Some contents \<and>
          0 \<le> mm_iso_unit_offset mm \<longrightarrow>
            enable_mod file_path (mm, fs) =
              (mm\<lparr>mod_status := (ModEnabled (basename file_path), Green)\<rparr>,
               fs(iso_path mm \<mapsto> overwrite_at contents (nat (mm_iso_unit_offset mm)) data)) \<and>
            disable_mod file_path (mm, fs) =
              (mm\<lparr>mod_status := (BackupApplied (basename file_path), Green)\<rparr>,
               fs(iso_path mm \<mapsto> overwrite_at contents (nat (mm_iso_unit_offset mm)) data)) \<and>
            take (SLOT_SIZE * NUM_SLOTS_TOTAL)
              (drop (nat (mm_iso_unit_offset mm))
                 (overwrite_at contents (nat (mm_iso_unit_offset mm)) data)) = data \<and>
            (\<forall>j < length contents.
               \<not> (nat (mm_iso_unit_offset mm) \<le> j \<and>
                  j < nat (mm_iso_unit_offset mm) + SLOT_SIZE * NUM_SLOTS_TOTAL) \<longrightarrow>
               overwrite_at contents (nat (mm_iso_unit_offset mm)) data ! j = contents ! j) \<and>
            length (overwrite_at contents (nat (mm_iso_unit_offset mm)) data) =
              max (length contents) (nat (mm_iso_unit_offset mm) + SLOT_SIZE * NUM_SLOTS_TOTAL)) \<and>
         (length data = SLOT_SIZE * NUM_SLOTS_TOTAL \<and>
          status_label (fst (load_unit_data_in_memory (st, fs0))) = (BlockLoaded, Green) \<and>
          open_mod_manager (fst (load_unit_data_in_memory (st, fs0))) = (st', Some mm) \<and>
          fs (iso_path mm) = fs0 (dw_iso st) \<longrightarrow>
            (\<exists>image.
               fs (iso_path mm) = Some image \<and>
               enable_mod file_path (mm, fs) =
                 (mm\<lparr>mod_status := (ModEnabled (basename file_path), Green)\<rparr>,
                  fs(iso_path mm \<mapsto>
                       take (nat (mm_iso_unit_offset mm)) image @ data @
                       drop (nat (mm_iso_unit_offset mm) + SLOT_SIZE * NUM_SLOTS_TOTAL) image)) \<and>
               disable_mod file_path (mm, fs) =
                 (mm\<lparr>mod_status := (BackupApplied (basename file_path), Green)\<rparr>,
                  fs(iso_path mm \<mapsto>
                       take (nat (mm_iso_unit_offset mm)) image @ data @
                       drop (nat (mm_iso_unit_offset mm) + SLOT_SIZE * NUM_SLOTS_TOTAL) image)) \<and>
               length (take (nat (mm_iso_unit_offset mm)) image @ data @
                       drop (nat (mm_iso_unit_offset mm) + SLOT_SIZE * NUM_SLOTS_TOTAL) image) =
                 length image))"
proof (intro conjI impI)
  assume ne: "length data \<noteq> SLOT_SIZE * NUM_SLOTS_TOTAL"
  then have "length data \<noteq> block_size mm" using assms(3) by simp
  from enable_mod_size_error[where fs=fs and mm=mm, OF assms(1,2) this] disable_mod_size_error[where fs=fs and mm=mm, OF assms(1,2) this]
  show "enable_mod file_path (mm, fs) =
              (mm\<lparr>mod_status :=
                   (ErrorEnablingMod (ModSizeError (length data) (SLOT_SIZE * NUM_SLOTS_TOTAL)),
                    Red)\<rparr>, fs)"
    and "disable_mod file_path (mm, fs) =
              (mm\<lparr>mod_status :=
                   (ErrorDisablingMod
                      (BackupSizeError (length data) (SLOT_SIZE * NUM_SLOTS_TOTAL)),
                    Red)\<rparr>, fs)"
    by (simp_all add: assms(3))
next
  assume h: "length data = SLOT_SIZE * NUM_SLOTS_TOTAL \<and>
          fs (iso_path mm) = Some contents \<and>
          0 \<le> mm_iso_unit_offset mm"
  then have len: "length data = block_size mm" using assms(3) by simp
  from h have c: "fs (iso_path mm) = Some contents" and o: "0 \<le> mm_iso_unit_offset mm"
    by simp_all
  show "enable_mod file_path (mm, fs) =
              (mm\<lparr>mod_status := (ModEnabled (basename file_path), Green)\<rparr>,
               fs(iso_path mm \<mapsto> overwrite_at contents (nat (mm_iso_unit_offset mm)) data))"
    by (rule enable_mod_writes[where fs=fs and mm=mm, OF assms(1,2) len c o])
  show "disable_mod file_path (mm, fs) =
              (mm\<lparr>mod_status := (BackupApplied (basename file_path), Green)\<rparr>,
               fs(iso_path mm \<mapsto> overwrite_at contents (nat (mm_iso_unit_offset mm)) data))"
    by (rule disable_mod_writes[where fs=fs and mm=mm, OF assms(1,2) len c o])
  show "take (SLOT_SIZE * NUM_SLOTS_TOTAL)
              (drop (nat (mm_iso_unit_offset mm))
                 (overwrite_at contents (nat (mm_iso_unit_offset mm)) data)) = data"
    using read_overwrite_at[of data "nat (mm_iso_unit_offset mm)" contents] h by simp
  show "\<forall>j < length contents.
               \<not> (nat (mm_iso_unit_offset mm) \<le> j \<and>
                  j < nat (mm_iso_unit_offset mm) + SLOT_SIZE * NUM_SLOTS_TOTAL) \<longrightarrow>
               overwrite_at contents (nat (mm_iso_unit_offset mm)) data ! j = contents ! j"
    using nth_overwrite_at_kept[of _ contents "nat (mm_iso_unit_offset mm)" data] h by simp
  show "length (overwrite_at contents (nat (mm_iso_unit_offset mm)) data) =
              max (length contents) (nat (mm_iso_unit_offset mm) + SLOT_SIZE * NUM_SLOTS_TOTAL)"
    using h by (simp add: length_overwrite_at_max)
next
  assume h: "length data = SLOT_SIZE * NUM_SLOTS_TOTAL \<and>
          status_label (fst (load_unit_data_in_memory (st, fs0))) = (BlockLoaded, Green) \<and>
          open_mod_manager (fst (load_unit_data_in_memory (st, fs0))) = (st', Some mm) \<and>
          fs (iso_path mm) = fs0 (dw_iso st)"
  let ?off = "nat (mm_iso_unit_offset mm)"
  from h have len: "length data = block_size mm" using assms(3) by simp
  from h loaded_table_inside[of st fs0] obtain image off where
    i: "fs0 (dw_iso st) = Some image"
    and u: "iso_unit_offset (fst (load_unit_data_in_memory (st, fs0))) = Some off"
    and p: "0 \<le> off" and b: "nat off + SLOT_SIZE * NUM_SLOTS_TOTAL \<le> length image"
    by blast
  from h open_mod_manager_fields[of "fst (load_unit_data_in_memory (st, fs0))" st' mm] u
  have off: "mm_iso_unit_offset mm = off" by simp
  from h i have c: "fs (iso_path mm) = Some image" by simp
  have o: "0 \<le> mm_iso_unit_offset mm" using off p by simp
  have fits: "?off + length data \<le> length image" using b off h by simp
  have ov: "overwrite_at image ?off data =
      take ?off image @ data @ drop (?off + SLOT_SIZE * NUM_SLOTS_TOTAL) image"
    using overwrite_at_inside[OF fits] h by simp
  have "enable_mod file_path (mm, fs) =
                 (mm\<lparr>mod_status := (ModEnabled (basename file_path), Green)\<rparr>,
                  fs(iso_path mm \<mapsto>
                       take ?off image @ data @ drop (?off + SLOT_SIZE * NUM_SLOTS_TOTAL) image))"
    using enable_mod_writes[where fs=fs and mm=mm, OF assms(1,2) len c o] by (simp only: ov)
  moreover have "disable_mod file_path (mm, fs) =
                 (mm\<lparr>mod_status := (BackupApplied (basename file_path), Green)\<rparr>,
                  fs(iso_path mm \<mapsto>
                       take ?off image @ data @ drop (?off + SLOT_SIZE * NUM_SLOTS_TOTAL) image))"
    using disable_mod_writes[where fs=fs and mm=mm, OF assms(1,2) len c o] by (simp only: ov)
  moreover have "length (take ?off image @ data @
                       drop (?off + SLOT_SIZE * NUM_SLOTS_TOTAL) image) = length image"
    using fits h by simp
  ultimately show "\<exists>image.
               fs (iso_path mm) = Some image \<and>
               enable_mod file_path (mm, fs) =
                 (mm\<lparr>mod_status := (ModEnabled (basename file_path), Green)\<rparr>,
                  fs(iso_path mm \<mapsto>
                       take (nat (mm_iso_unit_offset mm)) image @ data @
                       drop (nat (mm_iso_unit_offset mm) + SLOT_SIZE * NUM_SLOTS_TOTAL) image)) \<and>
               disable_mod file_path (mm, fs) =
                 (mm\<lparr>mod_status := (BackupApplied (basename file_path), Green)\<rparr>,
                  fs(iso_path mm \<mapsto>
                       take (nat (mm_iso_unit_offset mm)) image @ data @
                       drop (nat (mm_iso_unit_offset mm) + SLOT_SIZE * NUM_SLOTS_TOTAL) image)) \<and>
               length (take (nat (mm_iso_unit_offset mm)) image @ data @
                       drop (nat (mm_iso_unit_offset mm) + SLOT_SIZE * NUM_SLOTS_TOTAL) image) =
                 length image"
    using c by blast
qed

lemma example_manager_simps:
  "iso_path example_manager = ''game.iso''"
  "mm_iso_unit_offset example_manager = 976"
  "block_size example_manager = 19690"
  by (simp_all add: example_manager_def)

lemma example_image_parts:
  "take 976 example_image = AOB_PATTERN @ replicate 944 0"
  "drop 20666 example_image = []"
  by (simp_all add: example_image_def length_AOB_PATTERN)

lemma basename_example: "basename ''x.dw5xlemod'' = ''x.dw5xlemod''"
  by (simp add: basename_def)

lemma load_example:
  "load_unit_data_in_memory (example_editor, example_fs) =
     (example_editor\<lparr>unit_mem := Some \<lparr>buf = replicate 19690 5, pos = 0\<rparr>,
        iso_unit_offset := Some 976, status_label := (BlockLoaded, Green)\<rparr>,
      example_fs(''Backups_For_Mod_Disabling/game_Original.unitdata'' \<mapsto> replicate 19690 5))"
proof -
  have a: "dw_iso example_editor \<noteq> []" by (simp add: example_editor_iso)
  have b: "example_fs (dw_iso example_editor) = Some example_image"
    by (simp add: example_editor_iso example_fs_def)
  have c: "nat 976 + SLOT_SIZE * NUM_SLOTS_TOTAL \<le> length example_image"
    by (simp add: total_bytes length_example_image)
  have d: "example_fs (backup_path_of (dw_iso example_editor)) = None"
    by (simp add: example_editor_iso example_backup_path example_fs_def)
  from load_success[of example_editor example_fs example_image 976, OF a b locate_example_image c] d
  show ?thesis by (simp add: example_table example_editor_iso example_backup_path)
qed

lemma open_example_manager:
  "open_mod_manager (fst (load_unit_data_in_memory (example_editor, example_fs))) =
     (fst (load_unit_data_in_memory (example_editor, example_fs)), Some example_manager)"
  by (simp add: load_example open_mod_manager_def example_manager_def total_bytes
      example_editor_iso)

text \<open>
  C5 as stated fails: the manager with offset 976 and an image of 100 bytes; enabling
  a block of 19690 bytes reports success and leaves an image of 20666 bytes.
\<close>

theorem apply_block_resizes:
  "enable_mod ''x.dw5xlemod''
     (example_manager,
      [''game.iso'' \<mapsto> replicate 100 1, ''x.dw5xlemod'' \<mapsto> replicate 19690 9]) =
     (example_manager\<lparr>mod_status := (ModEnabled ''x.dw5xlemod'', Green)\<rparr>,
      [''game.iso'' \<mapsto> replicate 100 1, ''x.dw5xlemod'' \<mapsto> replicate 19690 9]
        (''game.iso'' \<mapsto> replicate 100 1 @ replicate 876 0 @ replicate 19690 9)) \<and>
   length (replicate 100 (1::byte)) = 100 \<and>
   length (replicate 100 (1::byte) @ replicate 876 0 @ replicate 19690 9) = 20666"
proof -
  let ?fs = "[''game.iso'' \<mapsto> replicate 100 (1::byte), ''x.dw5xlemod'' \<mapsto> replicate 19690 9]"
  have a: "''x.dw5xlemod'' \<noteq> []" by simp
  have b: "?fs ''x.dw5xlemod'' = Some (replicate 19690 9)" by simp
  have c: "length (replicate 19690 (9::byte)) = block_size example_manager"
    by (simp add: example_manager_simps)
  have d: "?fs (iso_path example_manager) = Some (replicate 100 1)"
    by (simp add: example_manager_simps)
  have e: "0 \<le> mm_iso_unit_offset example_manager" by (simp add: example_manager_simps)
  have "overwrite_at (replicate 100 (1::byte)) 976 (replicate 19690 9) =
      replicate 100 1 @ replicate 876 0 @ replicate 19690 9"
    by (simp add: overwrite_at_def)
  with enable_mod_writes[where fs="?fs" and mm=example_manager, OF a b c d e]
  show ?thesis by (simp add: example_manager_simps basename_example)
qed

theorem apply_block_witness:
  "snd (enable_mod ''x.dw5xlemod''
          (example_manager, example_fs(''x.dw5xlemod'' \<mapsto> replicate 19690 9))) ''game.iso'' =
     Some (AOB_PATTERN @ replicate 944 0 @ replicate 19690 9) \<and>
   enable_mod ''s.dw5xlemod'' (example_manager, example_fs(''s.dw5xlemod'' \<mapsto> replicate 10 9)) =
     (example_manager\<lparr>mod_status := (ErrorEnablingMod (ModSizeError 10 19690), Red)\<rparr>,
      example_fs(''s.dw5xlemod'' \<mapsto> replicate 10 9))"
proof -
  let ?fs = "example_fs(''x.dw5xlemod'' \<mapsto> replicate 19690 (9::byte))"
  let ?fs2 = "example_fs(''s.dw5xlemod'' \<mapsto> replicate 10 (9::byte))"
  let ?ld = "load_unit_data_in_memory (example_editor, example_fs)"
  have bs: "block_size example_manager = SLOT_SIZE * NUM_SLOTS_TOTAL"
    by (simp add: example_manager_simps total_bytes)
  have good: "length (replicate 19690 (9::byte)) = SLOT_SIZE * NUM_SLOTS_TOTAL \<and>
      status_label (fst ?ld) = (BlockLoaded, Green) \<and>
      open_mod_manager (fst ?ld) = (fst ?ld, Some example_manager) \<and>
      ?fs (iso_path example_manager) = example_fs (dw_iso example_editor)"
  proof (intro conjI)
    show "length (replicate 19690 (9::byte)) = SLOT_SIZE * NUM_SLOTS_TOTAL"
      by (simp add: total_bytes)
    show "status_label (fst ?ld) = (BlockLoaded, Green)" by (simp add: load_example)
    show "open_mod_manager (fst ?ld) = (fst ?ld, Some example_manager)"
      by (rule open_example_manager)
    show "?fs (iso_path example_manager) = example_fs (dw_iso example_editor)"
      by (simp add: example_manager_simps example_editor_iso)
  qed
  have img: "?fs (iso_path example_manager) = Some example_image"
    by (simp add: example_manager_simps example_fs_def)
  have bad: "length (replicate 10 (9::byte)) \<noteq> SLOT_SIZE * NUM_SLOTS_TOTAL"
    by (simp add: total_bytes)
  from apply_block[of "''x.dw5xlemod''" ?fs "replicate 19690 9" example_manager
      example_image example_editor example_fs "fst ?ld"] good bs img
  have "enable_mod ''x.dw5xlemod'' (example_manager, ?fs) =
      (example_manager\<lparr>mod_status := (ModEnabled (basename ''x.dw5xlemod''), Green)\<rparr>,
       ?fs(iso_path example_manager \<mapsto>
          take (nat (mm_iso_unit_offset example_manager)) example_image @ replicate 19690 9 @
          drop (nat (mm_iso_unit_offset example_manager) + SLOT_SIZE * NUM_SLOTS_TOTAL)
            example_image))"
    by simp
  then have one: "snd (enable_mod ''x.dw5xlemod'' (example_manager, ?fs)) ''game.iso'' =
      Some (AOB_PATTERN @ replicate 944 0 @ replicate 19690 9)"
    by (simp add: example_manager_simps total_bytes example_image_parts)
  from apply_block[of "''s.dw5xlemod''" ?fs2 "replicate 10 9" example_manager] bad bs
  have two: "enable_mod ''s.dw5xlemod'' (example_manager, ?fs2) =
     (example_manager\<lparr>mod_status := (ErrorEnablingMod (ModSizeError 10 19690), Red)\<rparr>, ?fs2)"
    by (simp add: total_bytes)
  from one two show ?thesis by simp
qed

section \<open>Failures and the state in memory\<close>

lemma submit_fails_result:
  assumes "submit_fails st"
  shows "\<exists>msg. (msg = NotLoaded \<or> (\<exists>e. msg = ErrorWithEntries e)) \<and>
           submit_unit st = st\<lparr>status_label := (msg, Red)\<rparr>"
proof (cases "unit_mem st")
  case None
  then have "submit_unit st = st\<lparr>status_label := (NotLoaded, Red)\<rparr>"
    by (simp add: submit_unit_def)
  then show ?thesis by blast
next
  case (Some mem)
  show ?thesis
  proof (cases "0 \<le> get_selected_slot_index st \<and> get_selected_slot_index st < int NUM_SLOTS_TOTAL")
    case False
    with Some have "submit_unit st =
        st\<lparr>status_label := (ErrorWithEntries (SlotRangeError (get_selected_slot_index st)), Red)\<rparr>"
      by (simp add: submit_unit_def Let_def)
    then show ?thesis by blast
  next
    case r: True
    with assms Some have "\<not> (0 \<le> name st \<and> name st \<le> 0xFFFF)"
      by (simp add: submit_fails_def)
    with Some r have "submit_unit st =
        st\<lparr>status_label := (ErrorWithEntries NameRangeError, Red)\<rparr>"
      by (simp add: submit_unit_def Let_def)
    then show ?thesis by blast
  qed
qed

lemma submit_error_iff: "is_error (status_label (submit_unit st)) \<longleftrightarrow> submit_fails st"
proof
  assume e: "is_error (status_label (submit_unit st))"
  show "submit_fails st"
  proof (rule ccontr)
    assume n: "\<not> submit_fails st"
    then obtain mem where m: "unit_mem st = Some mem" by (auto simp: submit_fails_def)
    from n have r: "0 \<le> get_selected_slot_index st \<and> get_selected_slot_index st < int NUM_SLOTS_TOTAL"
      and nm: "0 \<le> name st \<and> name st \<le> 0xFFFF"
      by (simp_all add: submit_fails_def)
    from submit_unit_success[OF m refl r nm] e show False by (simp add: is_error_def)
  qed
next
  assume "submit_fails st"
  from submit_fails_result[OF this] show "is_error (status_label (submit_unit st))"
    by (auto simp: is_error_def)
qed

lemma dump_fails_result:
  assumes "dump_fails raises st"
  shows "\<exists>msg. (msg = NotLoaded \<or> (\<exists>n e. msg = ErrorCreatingMod n e)) \<and>
           create_unit_mod raises (st, fs) = (st\<lparr>status_label := (msg, Red)\<rparr>, fs)"
proof (cases "unit_mem st")
  case None
  then have "create_unit_mod raises (st, fs) = (st\<lparr>status_label := (NotLoaded, Red)\<rparr>, fs)"
    by (simp add: create_unit_mod_def)
  then show ?thesis by blast
next
  case (Some mem)
  with assms obtain e where e: "raises (mod_file_name (modname st)) = Some e"
    by (auto simp: dump_fails_def)
  with Some have "create_unit_mod raises (st, fs) =
      (st\<lparr>status_label := (ErrorCreatingMod (mod_file_name (modname st)) e, Red)\<rparr>, fs)"
    by (simp add: create_unit_mod_def Let_def)
  then show ?thesis by blast
qed

lemma dump_error_iff:
  "is_error (status_label (fst (create_unit_mod raises (st, fs)))) \<longleftrightarrow> dump_fails raises st"
proof
  assume e: "is_error (status_label (fst (create_unit_mod raises (st, fs))))"
  show "dump_fails raises st"
  proof (rule ccontr)
    assume n: "\<not> dump_fails raises st"
    then obtain mem where m: "unit_mem st = Some mem" by (auto simp: dump_fails_def)
    from n have "raises (mod_file_name (modname st)) = None" by (simp add: dump_fails_def)
    with m e show False by (simp add: create_unit_mod_def Let_def is_error_def)
  qed
next
  assume "dump_fails raises st"
  from dump_fails_result[OF this, of fs]
  show "is_error (status_label (fst (create_unit_mod raises (st, fs))))"
    by (auto simp: is_error_def)
qed

lemma enable_fails_result:
  assumes "apply_fails p mm fs"
  shows "\<exists>e. enable_mod p (mm, fs) = (mm\<lparr>mod_status := (ErrorEnablingMod e, Red)\<rparr>, fs)"
  using assms
  by (auto simp: apply_fails_def enable_mod_def split: option.splits)

lemma disable_fails_result:
  assumes "apply_fails p mm fs"
  shows "\<exists>e. disable_mod p (mm, fs) = (mm\<lparr>mod_status := (ErrorDisablingMod e, Red)\<rparr>, fs)"
  using assms
  by (auto simp: apply_fails_def disable_mod_def split: option.splits)

lemma enable_error_iff:
  assumes "p \<noteq> []"
  shows "is_error (mod_status (fst (enable_mod p (mm, fs)))) \<longleftrightarrow> apply_fails p mm fs"
  using assms
  by (auto simp: apply_fails_def enable_mod_def is_error_def split: option.splits)

lemma disable_error_iff:
  assumes "p \<noteq> []"
  shows "is_error (mod_status (fst (disable_mod p (mm, fs)))) \<longleftrightarrow> apply_fails p mm fs"
  using assms
  by (auto simp: apply_fails_def disable_mod_def is_error_def split: option.splits)

lemma load_fails_before_result:
  assumes "load_fails_before_scan st fs"
  shows "\<exists>msg. (msg = NoISOSelected \<or> msg = ISONotFound) \<and>
           load_unit_data_in_memory (st, fs) = (st\<lparr>status_label := (msg, Red)\<rparr>, fs)"
proof (cases "dw_iso st = []")
  case True
  from load_no_iso[OF this, of fs] show ?thesis by blast
next
  case False
  with assms have "fs (dw_iso st) = None" by (simp add: load_fails_before_scan_def)
  from load_no_file[of st fs, OF False this] show ?thesis by blast
qed

lemma load_fails_after_result:
  assumes "load_fails_after_scan st fs"
  shows "\<exists>msg. (msg = CouldNotLocate \<or>
                 (\<exists>got. msg = UnexpectedEOF (SLOT_SIZE * NUM_SLOTS_TOTAL) got)) \<and>
           load_unit_data_in_memory (st, fs) =
             (st\<lparr>unit_mem := None, iso_unit_offset := None, status_label := (msg, Red)\<rparr>, fs)"
proof -
  from assms have ne: "dw_iso st \<noteq> []" by (simp add: load_fails_after_scan_def)
  from assms obtain contents where c: "fs (dw_iso st) = Some contents"
    by (cases "fs (dw_iso st)") (simp_all add: load_fails_after_scan_def)
  show ?thesis
  proof (cases "locate contents")
    case None
    from load_not_found[of st fs contents, OF ne c None] show ?thesis by blast
  next
    case (Some off)
    with assms c have "length contents < nat off + SLOT_SIZE * NUM_SLOTS_TOTAL"
      by (simp add: load_fails_after_scan_def)
    from load_short_read[of st fs contents off, OF ne c Some this]
    have "load_unit_data_in_memory (st, fs) =
        (st\<lparr>unit_mem := None, iso_unit_offset := None,
            status_label :=
              (UnexpectedEOF (SLOT_SIZE * NUM_SLOTS_TOTAL) (length contents - nat off), Red)\<rparr>,
         fs)"
      by (simp add: total_bytes)
    then show ?thesis by blast
  qed
qed

lemma load_error_iff:
  "is_error (status_label (fst (load_unit_data_in_memory (st, fs)))) \<longleftrightarrow>
     load_fails_before_scan st fs \<or> load_fails_after_scan st fs"
proof
  assume e: "is_error (status_label (fst (load_unit_data_in_memory (st, fs))))"
  show "load_fails_before_scan st fs \<or> load_fails_after_scan st fs"
  proof (rule ccontr)
    assume n: "\<not> (load_fails_before_scan st fs \<or> load_fails_after_scan st fs)"
    then have ne: "dw_iso st \<noteq> []" by (simp add: load_fails_before_scan_def)
    from n obtain contents where c: "fs (dw_iso st) = Some contents"
      by (auto simp: load_fails_before_scan_def)
    from n ne c obtain off where o: "locate contents = Some off"
      by (cases "locate contents") (simp_all add: load_fails_after_scan_def)
    from n ne c o have le: "nat off + SLOT_SIZE * NUM_SLOTS_TOTAL \<le> length contents"
      by (simp add: load_fails_after_scan_def)
    from load_success[of st fs contents off, OF ne c o le] e show False
      by (simp add: is_error_def)
  qed
next
  assume "load_fails_before_scan st fs \<or> load_fails_after_scan st fs"
  then show "is_error (status_label (fst (load_unit_data_in_memory (st, fs))))"
  proof
    assume "load_fails_before_scan st fs"
    from load_fails_before_result[OF this] show ?thesis by (auto simp: is_error_def)
  next
    assume "load_fails_after_scan st fs"
    from load_fails_after_result[OF this] show ?thesis by (auto simp: is_error_def)
  qed
qed

text \<open>
  C3, as amended. A submit, a dump, an enable or a disable that fails sets a red error
  message and changes nothing else: the buffer, the offset and the file system are as
  before. A load that fails because no image is selected or the image is no file sets
  a red error message and changes nothing else; a load that fails because the
  signature is not found or the read of the table is short sets a red error message,
  unsets the buffer and the offset and writes no file. Each operation ends with a red
  message exactly when it fails in one of these ways.
\<close>

theorem failure_keeps_or_resets_memory:
  "(submit_fails st \<longrightarrow>
      (\<exists>msg. (msg = NotLoaded \<or> (\<exists>e. msg = ErrorWithEntries e)) \<and>
         submit_unit st = st\<lparr>status_label := (msg, Red)\<rparr>)) \<and>
   (is_error (status_label (submit_unit st)) \<longleftrightarrow> submit_fails st) \<and>
   (dump_fails raises st \<longrightarrow>
      (\<exists>msg. (msg = NotLoaded \<or> (\<exists>n e. msg = ErrorCreatingMod n e)) \<and>
         create_unit_mod raises (st, fs) = (st\<lparr>status_label := (msg, Red)\<rparr>, fs))) \<and>
   (is_error (status_label (fst (create_unit_mod raises (st, fs)))) \<longleftrightarrow>
      dump_fails raises st) \<and>
   (apply_fails p mm fs \<longrightarrow>
      (\<exists>e. enable_mod p (mm, fs) = (mm\<lparr>mod_status := (ErrorEnablingMod e, Red)\<rparr>, fs)) \<and>
      (\<exists>e. disable_mod p (mm, fs) = (mm\<lparr>mod_status := (ErrorDisablingMod e, Red)\<rparr>, fs))) \<and>
   (p \<noteq> [] \<longrightarrow>
      (is_error (mod_status (fst (enable_mod p (mm, fs)))) \<longleftrightarrow> apply_fails p mm fs) \<and>
      (is_error (mod_status (fst (disable_mod p (mm, fs)))) \<longleftrightarrow> apply_fails p mm fs)) \<and>
   (load_fails_before_scan st fs \<longrightarrow>
      (\<exists>msg. (msg = NoISOSelected \<or> msg = ISONotFound) \<and>
         load_unit_data_in_memory (st, fs) = (st\<lparr>status_label := (msg, Red)\<rparr>, fs))) \<and>
   (load_fails_after_scan st fs \<longrightarrow>
      (\<exists>msg. (msg = CouldNotLocate \<or>
               (\<exists>got. msg = UnexpectedEOF (SLOT_SIZE * NUM_SLOTS_TOTAL) got)) \<and>
         load_unit_data_in_memory (st, fs) =
           (st\<lparr>unit_mem := None, iso_unit_offset := None,
               status_label := (msg, Red)\<rparr>, fs))) \<and>
   (is_error (status_label (fst (load_unit_data_in_memory (st, fs)))) \<longleftrightarrow>
      load_fails_before_scan st fs \<or> load_fails_after_scan st fs)"
  using submit_fails_result[of st] submit_error_iff[of st]
    dump_fails_result[of raises st fs] dump_error_iff[of raises st fs]
    enable_fails_result[of p mm fs] disable_fails_result[of p mm fs]
    enable_error_iff[of p mm fs] disable_error_iff[of p mm fs]
    load_fails_before_result[of st fs] load_fails_after_result[of st fs]
    load_error_iff[of st fs]
  by (intro conjI impI) (assumption | blast)+

lemma no_signature_in_ones: "\<forall>Q. \<not> occurs_at (replicate n 1) Q"
proof (intro allI notI)
  fix Q :: nat
  assume a: "occurs_at (replicate n 1) Q"
  from occurs_at_bound[OF a] have "Q < n" by simp
  with occurs_at_nth[OF a] show False by simp
qed

lemma load_example_not_found:
  "load_unit_data_in_memory (example_editor, [''game.iso'' \<mapsto> replicate 100 1]) =
     (example_editor\<lparr>unit_mem := None, iso_unit_offset := None,
        status_label := (CouldNotLocate, Red)\<rparr>,
      [''game.iso'' \<mapsto> replicate 100 1])"
proof -
  have a: "dw_iso example_editor \<noteq> []" by (simp add: example_editor_iso)
  have b: "[''game.iso'' \<mapsto> replicate 100 (1::byte)] (dw_iso example_editor) =
      Some (replicate 100 1)"
    by (simp add: example_editor_iso)
  from load_not_found[of example_editor "[''game.iso'' \<mapsto> replicate 100 1]" "replicate 100 1",
      OF a b locate_none[OF no_signature_in_ones]]
  show ?thesis .
qed

text \<open>
  C3 as stated fails: a load of an image without the signature, into an editor that
  holds a buffer, reports the failure and unsets the buffer.
\<close>

theorem failed_load_resets_memory:
  "unit_mem example_editor = Some \<lparr>buf = replicate 19690 0, pos = 0\<rparr> \<and>
   is_error (status_label (fst (load_unit_data_in_memory
      (example_editor, [''game.iso'' \<mapsto> replicate 100 1])))) \<and>
   unit_mem (fst (load_unit_data_in_memory
      (example_editor, [''game.iso'' \<mapsto> replicate 100 1]))) = None"
  by (simp add: load_example_not_found example_editor_mem is_error_def)

lemma example_mod_file_name: "mod_file_name ''nodir/x'' = ''nodir/x.dw5xlemod''"
  by (simp add: mod_file_name_def DW5XLE_UNIT_MOD_EXT_def)

theorem failure_keeps_or_resets_memory_witness:
  "is_error (status_label (submit_unit (example_editor\<lparr>name := 70000\<rparr>))) \<and>
   unit_mem (submit_unit (example_editor\<lparr>name := 70000\<rparr>)) =
     Some \<lparr>buf = replicate 19690 0, pos = 0\<rparr> \<and>
   is_error (status_label (fst (create_unit_mod (\<lambda>path. Some (FileNotFoundError path))
      (example_editor\<lparr>modname := ''nodir/x''\<rparr>, example_fs)))) \<and>
   snd (create_unit_mod (\<lambda>path. Some (FileNotFoundError path))
      (example_editor\<lparr>modname := ''nodir/x''\<rparr>, example_fs)) = example_fs \<and>
   unit_mem (fst (create_unit_mod (\<lambda>path. Some (FileNotFoundError path))
      (example_editor\<lparr>modname := ''nodir/x''\<rparr>, example_fs))) =
     Some \<lparr>buf = replicate 19690 0, pos = 0\<rparr> \<and>
   is_error (mod_status (fst (enable_mod ''nofile'' (example_manager, example_fs)))) \<and>
   snd (enable_mod ''nofile'' (example_manager, example_fs)) = example_fs \<and>
   is_error (mod_status (fst (disable_mod ''nofile'' (example_manager, example_fs)))) \<and>
   snd (disable_mod ''nofile'' (example_manager, example_fs)) = example_fs \<and>
   is_error (status_label (fst (load_unit_data_in_memory
      (example_editor\<lparr>dw_iso := ''''\<rparr>, example_fs)))) \<and>
   unit_mem (fst (load_unit_data_in_memory
      (example_editor\<lparr>dw_iso := ''''\<rparr>, example_fs))) =
     Some \<lparr>buf = replicate 19690 0, pos = 0\<rparr> \<and>
   is_error (status_label (fst (load_unit_data_in_memory
      (example_editor, [''game.iso'' \<mapsto> replicate 100 1])))) \<and>
   iso_unit_offset (fst (load_unit_data_in_memory
      (example_editor, [''game.iso'' \<mapsto> replicate 100 1]))) = None"
proof -
  let ?st = "example_editor\<lparr>name := 70000\<rparr>"
  let ?sd = "example_editor\<lparr>modname := ''nodir/x''\<rparr>"
  let ?s0 = "example_editor\<lparr>dw_iso := ''''\<rparr>"
  let ?raises = "\<lambda>path. Some (FileNotFoundError path)"
  let ?fs = "[''game.iso'' \<mapsto> replicate 100 (1::byte)]"
  have s: "get_selected_slot_index ?st = 0"
    by (simp add: example_editor_slot get_selected_slot_index_def example_slot)
  have f1: "submit_fails ?st" by (simp add: submit_fails_def s in_range_simps)
  have f2: "dump_fails ?raises ?sd" by (simp add: dump_fails_def)
  have f3: "apply_fails ''nofile'' example_manager example_fs"
    by (simp add: apply_fails_def example_fs_def)
  have f4: "load_fails_before_scan ?s0 example_fs" by (simp add: load_fails_before_scan_def)
  have f5: "load_fails_after_scan example_editor ?fs"
    by (simp add: load_fails_after_scan_def example_editor_iso
        locate_none[OF no_signature_in_ones])
  have f6: "''nofile'' \<noteq> []" by simp
  note t = failure_keeps_or_resets_memory[of ?st ?raises example_fs "''nofile''" example_manager]
  from t[THEN conjunct1, THEN mp, OF f1] obtain msg where
    "submit_unit ?st = ?st\<lparr>status_label := (msg, Red)\<rparr>" by blast
  then have a: "is_error (status_label (submit_unit ?st)) \<and>
      unit_mem (submit_unit ?st) = Some \<lparr>buf = replicate 19690 0, pos = 0\<rparr>"
    by (simp add: example_editor_mem is_error_def)
  note t5 = t[THEN conjunct2, THEN conjunct2, THEN conjunct2, THEN conjunct2, THEN conjunct1,
      THEN mp, OF f3]
  from t5[THEN conjunct1] obtain e1 where
    "enable_mod ''nofile'' (example_manager, example_fs) =
       (example_manager\<lparr>mod_status := (ErrorEnablingMod e1, Red)\<rparr>, example_fs)" by blast
  then have a2: "is_error (mod_status (fst (enable_mod ''nofile'' (example_manager, example_fs)))) \<and>
      snd (enable_mod ''nofile'' (example_manager, example_fs)) = example_fs"
    by (simp add: is_error_def)
  from t5[THEN conjunct2] obtain e2 where
    "disable_mod ''nofile'' (example_manager, example_fs) =
       (example_manager\<lparr>mod_status := (ErrorDisablingMod e2, Red)\<rparr>, example_fs)" by blast
  then have a3: "is_error (mod_status (fst (disable_mod ''nofile'' (example_manager, example_fs)))) \<and>
      snd (disable_mod ''nofile'' (example_manager, example_fs)) = example_fs"
    by (simp add: is_error_def)
  note t6 = t[THEN conjunct2, THEN conjunct2, THEN conjunct2, THEN conjunct2, THEN conjunct2,
      THEN conjunct1, THEN mp, OF f6]
  note u = failure_keeps_or_resets_memory[of ?sd ?raises example_fs "''nofile''" example_manager]
  from u[THEN conjunct2, THEN conjunct2, THEN conjunct1, THEN mp, OF f2] obtain msg2 where
    "create_unit_mod ?raises (?sd, example_fs) = (?sd\<lparr>status_label := (msg2, Red)\<rparr>, example_fs)"
    by blast
  then have b: "is_error (status_label (fst (create_unit_mod ?raises (?sd, example_fs)))) \<and>
      snd (create_unit_mod ?raises (?sd, example_fs)) = example_fs \<and>
      unit_mem (fst (create_unit_mod ?raises (?sd, example_fs))) =
        Some \<lparr>buf = replicate 19690 0, pos = 0\<rparr>"
    by (simp add: example_editor_mem is_error_def)
  note v = failure_keeps_or_resets_memory[of ?s0 ?raises example_fs "''nofile''" example_manager]
  from v[THEN conjunct2, THEN conjunct2, THEN conjunct2, THEN conjunct2, THEN conjunct2,
      THEN conjunct2, THEN conjunct1, THEN mp, OF f4] obtain msg3 where
    "load_unit_data_in_memory (?s0, example_fs) = (?s0\<lparr>status_label := (msg3, Red)\<rparr>, example_fs)"
    by blast
  then have c: "is_error (status_label (fst (load_unit_data_in_memory (?s0, example_fs)))) \<and>
      unit_mem (fst (load_unit_data_in_memory (?s0, example_fs))) =
        Some \<lparr>buf = replicate 19690 0, pos = 0\<rparr>"
    by (simp add: example_editor_mem is_error_def)
  note w = failure_keeps_or_resets_memory[of example_editor ?raises ?fs "''nofile''" example_manager]
  from w[THEN conjunct2, THEN conjunct2, THEN conjunct2, THEN conjunct2, THEN conjunct2,
      THEN conjunct2, THEN conjunct2, THEN conjunct1, THEN mp, OF f5] obtain msg4 where
    "load_unit_data_in_memory (example_editor, ?fs) =
       (example_editor\<lparr>unit_mem := None, iso_unit_offset := None,
          status_label := (msg4, Red)\<rparr>, ?fs)"
    by blast
  then have d: "is_error (status_label (fst (load_unit_data_in_memory (example_editor, ?fs)))) \<and>
      iso_unit_offset (fst (load_unit_data_in_memory (example_editor, ?fs))) = None"
    by (simp add: is_error_def)
  from t6 f3
  have e: "is_error (mod_status (fst (enable_mod ''nofile'' (example_manager, example_fs))))"
    by blast
  from a a2 a3 b c d show ?thesis by simp
qed

end
